theory Spec2Isabelle
  imports Complex_Main "HOL-Library.Sublist" "HOL-Library.Multiset"
begin

section \<open>Numbers, dictionaries and errors\<close>

text \<open>
  The dashboard computes with Python and numpy numbers. They are modelled as exact
  reals: every formula keeps the shape it has in the source. The rounding error of the
  binary representation is left out where it can only change a result in its last
  places; where it can change what the user sees, it is made explicit: the projected
  table that is rounded to one decimal takes the rounding of doubles as a parameter,
  and the peer statistics take the pandas aggregates as a parameter. Where pandas
  produces the missing value NaN (an empty aggregate, the first row of a difference)
  the model says so explicitly.

  A Python \<open>dict\<close> is a map; \<open>d.get(k, default)\<close> is \<open>dict_get\<close>, and \<open>d[k]\<close>,
  which raises \<open>KeyError\<close> on a missing key, is \<open>dict_item\<close>.
\<close>

datatype py_error = KeyError | IndexError | ZeroDivisionError

type_synonym pydict = "string \<rightharpoonup> real"

definition dict_get :: "pydict \<Rightarrow> string \<Rightarrow> real \<Rightarrow> real" where
  "dict_get d k dflt = (case d k of None \<Rightarrow> dflt | Some v \<Rightarrow> v)"

definition dict_item :: "pydict \<Rightarrow> string \<Rightarrow> py_error + real" where
  "dict_item d k = (case d k of None \<Rightarrow> Inl KeyError | Some v \<Rightarrow> Inr v)"

definition bind_err :: "py_error + 'a \<Rightarrow> ('a \<Rightarrow> py_error + 'b) \<Rightarrow> py_error + 'b" where
  "bind_err m f = (case m of Inl e \<Rightarrow> Inl e | Inr v \<Rightarrow> f v)"

text \<open>
  Division. Python raises on a zero divisor and numpy answers an infinity with a
  warning; the model has no infinities and makes both the failure
  \<open>ZeroDivisionError\<close>, so that a result \<open>Inr\<close> says that no division by zero happened.
\<close>

definition checked_div :: "real \<Rightarrow> real \<Rightarrow> py_error + real" where
  "checked_div a b = (if b = 0 then Inl ZeroDivisionError else Inr (a / b))"

text \<open>
  Python's \<open>round(x, 1)\<close>: one decimal, a tie going to the even neighbour.
\<close>

definition round_half_even :: "real \<Rightarrow> int" where
  "round_half_even x =
     (let f = \<lfloor>x\<rfloor>; d = x - of_int f
      in if d < 1 / 2 then f
         else if 1 / 2 < d then f + 1
         else if even f then f else f + 1)"

definition round1 :: "real \<Rightarrow> real" where
  "round1 x = of_int (round_half_even (x * 10)) / 10"

section \<open>Score to rating (data_loader.py, esg_simulator.py)\<close>

fun get_esg_rating :: "real \<Rightarrow> string \<times> string" where
  "get_esg_rating score =
     (if score \<ge> 80 then (''AAA'', ''#006400'')
      else if score \<ge> 70 then (''AA'', ''#228B22'')
      else if score \<ge> 60 then (''A'', ''#32CD32'')
      else if score \<ge> 50 then (''BBB'', ''#FFD700'')
      else if score \<ge> 40 then (''BB'', ''#FFA500'')
      else if score \<ge> 30 then (''B'', ''#FF6347'')
      else if score \<ge> 20 then (''CCC'', ''#FF4500'')
      else (''CC'', ''#DC143C''))"

fun score_to_rating :: "real \<Rightarrow> string" where
  "score_to_rating score =
     (if score \<ge> 80 then ''AAA''
      else if score \<ge> 75 then ''AA''
      else if score \<ge> 70 then ''A''
      else if score \<ge> 65 then ''BBB''
      else if score \<ge> 60 then ''BB''
      else if score \<ge> 55 then ''B''
      else if score \<ge> 50 then ''CCC''
      else if score \<ge> 40 then ''CC''
      else ''C'')"

section \<open>The what-if simulator (esg_simulator.py)\<close>

definition pillars :: "string list" where
  "pillars = [''environmental'', ''social'', ''governance'']"

text \<open>The weights set in \<open>ESGSimulator.__init__\<close>: 0.33, 0.33 and 0.34.\<close>

definition calculate_total_score :: "real \<Rightarrow> real \<Rightarrow> real \<Rightarrow> real" where
  "calculate_total_score env_score social_score gov_score =
     env_score * 0.33 + social_score * 0.33 + gov_score * 0.34"

record sim_results =
  current :: pydict
  projected :: pydict
  delta :: pydict
  improvement_pct :: pydict

text \<open>The loop \<open>for pillar in ['environmental', 'social', 'governance']\<close>.\<close>

fun project_pillars :: "pydict \<Rightarrow> pydict \<Rightarrow> string list \<Rightarrow> sim_results \<Rightarrow> sim_results" where
  "project_pillars current_scores improvements [] results = results"
| "project_pillars current_scores improvements (pillar # rest) results =
     (let cur = dict_get current_scores pillar 0;
          pct = dict_get improvements pillar 0;
          proj = min 100 (cur + (cur * pct / 100))
      in project_pillars current_scores improvements rest
           (results\<lparr>projected := (projected results)(pillar \<mapsto> proj),
                    delta := (delta results)(pillar \<mapsto> proj - cur)\<rparr>))"

definition simulate_improvements :: "pydict \<Rightarrow> pydict \<Rightarrow> py_error + sim_results" where
  "simulate_improvements current_scores improvements =
     (let results0 = \<lparr>current = current_scores, projected = Map.empty,
                      delta = Map.empty, improvement_pct = improvements\<rparr>;
          results1 = project_pillars current_scores improvements pillars results0;
          results2 = results1\<lparr>current := (current results1)(''total'' \<mapsto>
                       calculate_total_score (dict_get current_scores ''environmental'' 0)
                         (dict_get current_scores ''social'' 0)
                         (dict_get current_scores ''governance'' 0))\<rparr>
      in bind_err (dict_item (projected results2) ''environmental'') (\<lambda>pe.
         bind_err (dict_item (projected results2) ''social'') (\<lambda>ps.
         bind_err (dict_item (projected results2) ''governance'') (\<lambda>pg.
         let results3 = results2\<lparr>projected := (projected results2)(''total'' \<mapsto>
                          calculate_total_score pe ps pg)\<rparr>
         in bind_err (dict_item (projected results3) ''total'') (\<lambda>pt.
            bind_err (dict_item (current results3) ''total'') (\<lambda>ct.
            Inr (results3\<lparr>delta := (delta results3)(''total'' \<mapsto> pt - ct)\<rparr>)))))))"








section \<open>The table of ESG data\<close>

text \<open>
  A numeric cell of the data frame is a number or NaN (\<open>None\<close>). A comparison with
  NaN is false and arithmetic with NaN gives NaN, as in numpy.
\<close>

type_synonym cell = "real option"

definition cell_lt :: "cell \<Rightarrow> cell \<Rightarrow> bool" where
  "cell_lt a b = (case a of None \<Rightarrow> False | Some x \<Rightarrow> (case b of None \<Rightarrow> False | Some y \<Rightarrow> x < y))"

definition cell_gt :: "cell \<Rightarrow> cell \<Rightarrow> bool" where
  "cell_gt a b = cell_lt b a"

definition cell_sub :: "cell \<Rightarrow> cell \<Rightarrow> cell" where
  "cell_sub a b = (case a of None \<Rightarrow> None | Some x \<Rightarrow> (case b of None \<Rightarrow> None | Some y \<Rightarrow> Some (x - y)))"

definition cell_div :: "cell \<Rightarrow> cell \<Rightarrow> py_error + cell" where
  "cell_div a b =
     (case a of None \<Rightarrow> Inr None
      | Some x \<Rightarrow> (case b of None \<Rightarrow> Inr None
                  | Some y \<Rightarrow> bind_err (checked_div x y) (\<lambda>q. Inr (Some q))))"

text \<open>
  One row of the frame. The text columns and the year are never missing after
  \<open>clean_data\<close> (\<open>astype(int)\<close>, \<open>astype(str)\<close>); the other columns are numeric cells.
  A data frame is the list of its rows in positional order. Columns of the input file
  that the modelled functions never read are left out.
\<close>

record esg_row =
  company :: string
  sector :: string
  country :: string
  year :: int
  environmental_score :: cell
  social_score :: cell
  governance_score :: cell
  total_esg_score :: cell
  carbon_emissions_mt :: cell
  safety_incidents :: cell
  board_independence_pct :: cell
  controversy_score :: cell
  diversity_score :: cell
  market_cap_billion :: cell

type_synonym dataframe = "esg_row list"

text \<open>
  The pandas aggregates used by the source. \<open>Series.max()\<close> of an empty column is NaN,
  and \<open>year == NaN\<close> selects no row. \<open>mean\<close>, \<open>median\<close> and \<open>std\<close> skip NaN; the
  standard deviation is the sample one (divisor \<open>n - 1\<close>), NaN for fewer than two values.
  The three are written here in exact arithmetic.
\<close>

definition year_max :: "dataframe \<Rightarrow> int option" where
  "year_max df = (if df = [] then None else Some (Max (set (map year df))))"

fun dropna :: "cell list \<Rightarrow> real list" where
  "dropna [] = []"
| "dropna (None # cs) = dropna cs"
| "dropna (Some x # cs) = x # dropna cs"

definition mean :: "cell list \<Rightarrow> cell" where
  "mean cs = (let xs = dropna cs
              in if xs = [] then None else Some (sum_list xs / real (length xs)))"

definition median :: "cell list \<Rightarrow> cell" where
  "median cs = (let xs = sort (dropna cs); n = length xs
                in if n = 0 then None
                   else if odd n then Some (xs ! (n div 2))
                   else Some ((xs ! (n div 2 - 1) + xs ! (n div 2)) / 2))"

definition std :: "cell list \<Rightarrow> cell" where
  "std cs = (let xs = dropna cs; n = length xs
             in if n < 2 then None
                else let m = sum_list xs / real n
                     in Some (sqrt (sum_list (map (\<lambda>x. (x - m)\<^sup>2) xs) / real (n - 1))))"

section \<open>Filtering and year-over-year change (data_loader.py)\<close>

text \<open>
  An optional list argument is \<open>None\<close> or a list; \<open>if companies:\<close> holds for a
  non-empty list only. The function reads \<open>df\<close> and builds new frames from its copy;
  no statement of it writes to \<open>df\<close>.
\<close>

definition truthy :: "'a list option \<Rightarrow> bool" where
  "truthy l = (case l of None \<Rightarrow> False | Some xs \<Rightarrow> xs \<noteq> [])"

definition isin :: "'a \<Rightarrow> 'a list option \<Rightarrow> bool" where
  "isin x l = (case l of None \<Rightarrow> False | Some xs \<Rightarrow> x \<in> set xs)"

definition filter_data ::
  "dataframe \<Rightarrow> string list option \<Rightarrow> string list option \<Rightarrow> string list option
     \<Rightarrow> int list option \<Rightarrow> dataframe" where
  "filter_data df companies sectors countries years =
     (let filtered_df = df;
          filtered_df = (if truthy companies
                         then filter (\<lambda>r. isin (company r) companies) filtered_df
                         else filtered_df);
          filtered_df = (if truthy sectors
                         then filter (\<lambda>r. isin (sector r) sectors) filtered_df
                         else filtered_df);
          filtered_df = (if truthy countries
                         then filter (\<lambda>r. isin (country r) countries) filtered_df
                         else filtered_df);
          filtered_df = (if truthy years
                         then filter (\<lambda>r. isin (year r) years) filtered_df
                         else filtered_df)
      in filtered_df)"

text \<open>
  The same function with the data frames as objects, to say what the call does to
  its argument. A store is the list of the frames allocated so far and a reference is
  an index into it; a variable of the source holds a reference. \<open>df.copy()\<close> allocates
  a frame with the rows of \<open>df\<close>, and boolean indexing \<open>frame[mask]\<close> allocates a frame
  with the selected rows; the assignment \<open>filtered_df = ...\<close> rebinds the variable to the
  new reference. \<open>filter_data\<close> has no statement that writes into a frame.
\<close>

type_synonym store = "dataframe list"

definition new_frame :: "store \<Rightarrow> dataframe \<Rightarrow> store \<times> nat" where
  "new_frame st rows = (st @ [rows], length st)"

definition frame_copy :: "store \<Rightarrow> nat \<Rightarrow> store \<times> nat" where
  "frame_copy st r = new_frame st (st ! r)"

definition frame_where :: "store \<Rightarrow> nat \<Rightarrow> (esg_row \<Rightarrow> bool) \<Rightarrow> store \<times> nat" where
  "frame_where st r keep = new_frame st (filter keep (st ! r))"

definition filter_data_in_store ::
  "store \<Rightarrow> nat \<Rightarrow> string list option \<Rightarrow> string list option \<Rightarrow> string list option
     \<Rightarrow> int list option \<Rightarrow> store \<times> nat" where
  "filter_data_in_store st df companies sectors countries years =
     (case frame_copy st df of (st, filtered_df) \<Rightarrow>
      case (if truthy companies
            then frame_where st filtered_df (\<lambda>r. isin (company r) companies)
            else (st, filtered_df)) of (st, filtered_df) \<Rightarrow>
      case (if truthy sectors
            then frame_where st filtered_df (\<lambda>r. isin (sector r) sectors)
            else (st, filtered_df)) of (st, filtered_df) \<Rightarrow>
      case (if truthy countries
            then frame_where st filtered_df (\<lambda>r. isin (country r) countries)
            else (st, filtered_df)) of (st, filtered_df) \<Rightarrow>
      case (if truthy years
            then frame_where st filtered_df (\<lambda>r. isin (year r) years)
            else (st, filtered_df)) of (st, filtered_df) \<Rightarrow>
      (st, filtered_df))"

text \<open>
  \<open>Series.diff()\<close>: NaN in the first row, then each value minus the one before.
\<close>

fun diff :: "cell list \<Rightarrow> cell list" where
  "diff [] = []"
| "diff (x # xs) = None # map (\<lambda>(prev, cur). cell_sub cur prev) (zip (x # xs) xs)"

text \<open>
  The result of \<open>calculate_yoy_change\<close> has the columns of the input and four more.
  \<open>sort_values('year')\<close> is modelled by the stable sort on the year; the results below
  hold for any order among rows of the same year.
\<close>

record yoy_row = esg_row +
  environmental_score_change :: cell
  social_score_change :: cell
  governance_score_change :: cell
  total_esg_score_change :: cell

definition add_changes :: "esg_row \<Rightarrow> cell \<times> cell \<times> cell \<times> cell \<Rightarrow> yoy_row" where
  "add_changes r ch = (case ch of (e, s, g, t) \<Rightarrow> esg_row.extend r (yoy_row.fields e s g t))"

definition calculate_yoy_change :: "dataframe \<Rightarrow> string \<Rightarrow> yoy_row list" where
  "calculate_yoy_change df company_name =
     (let company_df = sort_key year (filter (\<lambda>r. company r = company_name) df);
          e = diff (map environmental_score company_df);
          s = diff (map social_score company_df);
          g = diff (map governance_score company_df);
          t = diff (map total_esg_score company_df)
      in map (\<lambda>(r, ch). add_changes r ch) (zip company_df (zip e (zip s (zip g t)))))"

section \<open>The analyzer (esg_analyzer.py)\<close>

text \<open>
  \<open>frame.iloc[0]\<close> raises \<open>IndexError\<close> on an empty frame.
\<close>

definition iloc0 :: "'a list \<Rightarrow> py_error + 'a" where
  "iloc0 rows = (case rows of [] \<Rightarrow> Inl IndexError | r # _ \<Rightarrow> Inr r)"

text \<open>
  \<open>calculate_sector_benchmark\<close> returns a dictionary with nine fixed keys, or the empty
  dictionary; the model is a record, and \<open>None\<close> for the empty dictionary. The key
  \<open>'sector'\<close> is the field \<open>sector_name\<close>.
\<close>

record benchmark =
  company_e :: cell
  sector_e :: cell
  company_s :: cell
  sector_s :: cell
  company_g :: cell
  sector_g :: cell
  company_total :: cell
  sector_total :: cell
  sector_name :: string

definition calculate_sector_benchmark :: "dataframe \<Rightarrow> string \<Rightarrow> py_error + benchmark option" where
  "calculate_sector_benchmark df company_name =
     (let company_data = filter (\<lambda>r. company r = company_name) df
      in if company_data = [] then Inr None
         else
           let latest_year = year_max company_data
           in bind_err (iloc0 (filter (\<lambda>r. Some (year r) = latest_year) company_data))
                (\<lambda>company_latest.
                   let sect = sector company_latest;
                       sector_data = filter (\<lambda>r. sector r = sect \<and> Some (year r) = latest_year) df
                   in Inr (Some \<lparr>company_e = environmental_score company_latest,
                                 sector_e = mean (map environmental_score sector_data),
                                 company_s = social_score company_latest,
                                 sector_s = mean (map social_score sector_data),
                                 company_g = governance_score company_latest,
                                 sector_g = mean (map governance_score sector_data),
                                 company_total = total_esg_score company_latest,
                                 sector_total = mean (map total_esg_score sector_data),
                                 sector_name = sect\<rparr>)))"

text \<open>
  A risk flag. The description embeds the number as the f-string prints it; the
  printing of a number is the parameter \<open>fmt\<close>.
\<close>

record risk =
  category :: string
  severity :: string
  description :: string

definition identify_risks :: "(cell \<Rightarrow> string) \<Rightarrow> dataframe \<Rightarrow> string \<Rightarrow> py_error + risk list" where
  "identify_risks fmt df company_name =
     (let company_data = filter (\<lambda>r. company r = company_name) df
      in if company_data = [] then Inr []
         else
           bind_err (iloc0 (filter (\<lambda>r. Some (year r) = year_max company_data) company_data))
             (\<lambda>latest.
                let risks = [];
                    risks = (if cell_lt (environmental_score latest) (Some 50)
                             then risks @ [\<lparr>category = ''Environmental'',
                               severity = (if cell_lt (environmental_score latest) (Some 40)
                                           then ''High'' else ''Medium''),
                               description = ''Environmental score ('' @ fmt (environmental_score latest)
                                             @ '') below industry threshold''\<rparr>]
                             else risks);
                    risks = (if cell_gt (carbon_emissions_mt latest) (Some 50)
                             then risks @ [\<lparr>category = ''Environmental'',
                               severity = (if cell_gt (carbon_emissions_mt latest) (Some 100)
                                           then ''High'' else ''Medium''),
                               description = ''High carbon emissions ('' @ fmt (carbon_emissions_mt latest)
                                             @ '' MT)''\<rparr>]
                             else risks);
                    risks = (if cell_lt (social_score latest) (Some 50)
                             then risks @ [\<lparr>category = ''Social'',
                               severity = (if cell_lt (social_score latest) (Some 40)
                                           then ''High'' else ''Medium''),
                               description = ''Social score ('' @ fmt (social_score latest)
                                             @ '') indicates workforce or community concerns''\<rparr>]
                             else risks);
                    risks = (if cell_gt (safety_incidents latest) (Some 20)
                             then risks @ [\<lparr>category = ''Social'',
                               severity = (if cell_gt (safety_incidents latest) (Some 40)
                                           then ''High'' else ''Medium''),
                               description = ''Elevated safety incidents ('' @ fmt (safety_incidents latest)
                                             @ '' reported)''\<rparr>]
                             else risks);
                    risks = (if cell_lt (governance_score latest) (Some 60)
                             then risks @ [\<lparr>category = ''Governance'',
                               severity = (if cell_lt (governance_score latest) (Some 50)
                                           then ''High'' else ''Medium''),
                               description = ''Governance score ('' @ fmt (governance_score latest)
                                             @ '') suggests oversight concerns''\<rparr>]
                             else risks);
                    risks = (if cell_lt (board_independence_pct latest) (Some 60)
                             then risks @ [\<lparr>category = ''Governance'',
                               severity = ''Medium'',
                               description = ''Low board independence ('' @ fmt (board_independence_pct latest)
                                             @ ''%)''\<rparr>]
                             else risks);
                    risks = (if cell_lt (controversy_score latest) (Some 60)
                             then risks @ [\<lparr>category = ''Reputation'',
                               severity = (if cell_lt (controversy_score latest) (Some 50)
                                           then ''High'' else ''Medium''),
                               description = ''Controversy score ('' @ fmt (controversy_score latest)
                                             @ '') indicates reputational risks''\<rparr>]
                             else risks)
                in Inr risks))"

record improvement =
  area :: string
  gap :: real
  recommendation :: string

text \<open>
  One comparison of \<open>calculate_improvement_areas\<close>: the entry is added when the
  company's score is below the sector's mean, which needs both to be numbers. The
  sector means and the rounded gap are in exact arithmetic here; the results below
  concern only the call for a company without rows, which computes neither.
\<close>

definition improvement_for :: "cell \<Rightarrow> cell \<Rightarrow> string \<Rightarrow> string \<Rightarrow> improvement list" where
  "improvement_for company_score sector_score area_name advice =
     (case company_score of None \<Rightarrow> []
      | Some c \<Rightarrow> (case sector_score of None \<Rightarrow> []
                  | Some m \<Rightarrow> if c < m
                             then [\<lparr>area = area_name, gap = round1 (m - c), recommendation = advice\<rparr>]
                             else []))"

definition calculate_improvement_areas :: "dataframe \<Rightarrow> string \<Rightarrow> py_error + improvement list" where
  "calculate_improvement_areas df company_name =
     bind_err (calculate_sector_benchmark df company_name)
       (\<lambda>bm. case bm of None \<Rightarrow> Inr []
              | Some b \<Rightarrow>
                  let improvements = [];
                      improvements = improvements @ improvement_for (company_e b) (sector_e b)
                        ''Environmental''
                        ''Focus on reducing carbon emissions and improving energy efficiency'';
                      improvements = improvements @ improvement_for (company_s b) (sector_s b)
                        ''Social''
                        ''Enhance workforce diversity, safety programs, and community engagement'';
                      improvements = improvements @ improvement_for (company_g b) (sector_g b)
                        ''Governance''
                        ''Strengthen board independence and improve executive compensation alignment''
                  in Inr improvements)"

section \<open>Peer benchmarking (peer_benchmark.py)\<close>

text \<open>
  \<open>(column < value).sum()\<close>: the number of cells strictly below the value; a NaN cell
  or a NaN value counts for nothing.
\<close>

definition count_lt :: "cell list \<Rightarrow> cell \<Rightarrow> nat" where
  "count_lt col v = length (filter (\<lambda>c. cell_lt c v) col)"

record peer_stat =
  name :: string
  company_value :: cell
  sector_mean :: cell
  sector_median :: cell
  sector_std :: cell
  percentile :: real
  z_score :: cell
  vs_mean :: cell
  vs_median :: cell

text \<open>The dictionary \<open>metrics\<close> of \<open>calculate_peer_statistics\<close>, with the column each key reads.\<close>

definition peer_metrics :: "(string \<times> (esg_row \<Rightarrow> cell) \<times> string) list" where
  "peer_metrics =
     [(''total_esg_score'', total_esg_score, ''Total ESG''),
      (''environmental_score'', environmental_score, ''Environmental''),
      (''social_score'', social_score, ''Social''),
      (''governance_score'', governance_score, ''Governance'')]"

text \<open>
  The aggregates \<open>Series.mean()\<close>, \<open>Series.median()\<close> and \<open>Series.std()\<close> are functions of
  the pandas library, computed in binary floating point. Their rounding can decide the
  test \<open>sector_std > 0\<close>: for three equal scores the exact deviation is 0 while the
  computed one may be a tiny positive number. The peer statistics therefore take the
  three aggregates as a parameter and nothing is assumed about them; \<open>exact_aggregates\<close>
  are the aggregates in exact arithmetic, one possible value of the parameter.
\<close>

record aggregates =
  agg_mean :: "cell list \<Rightarrow> cell"
  agg_median :: "cell list \<Rightarrow> cell"
  agg_std :: "cell list \<Rightarrow> cell"

definition exact_aggregates :: aggregates where
  "exact_aggregates = \<lparr>agg_mean = mean, agg_median = median, agg_std = std\<rparr>"

text \<open>The body of the loop \<open>for metric, name in metrics.items()\<close>.\<close>

definition metric_stat ::
  "aggregates \<Rightarrow> esg_row \<Rightarrow> dataframe \<Rightarrow> (esg_row \<Rightarrow> cell) \<Rightarrow> string \<Rightarrow> py_error + peer_stat" where
  "metric_stat agg company_row sector_data metric display =
     (let cv = metric company_row;
          s_mean = agg_mean agg (map metric sector_data);
          s_median = agg_median agg (map metric sector_data);
          s_std = agg_std agg (map metric sector_data)
      in bind_err (checked_div (real (count_lt (map metric sector_data) cv))
                     (real (length sector_data)))
           (\<lambda>q. let pct = q * 100
                 in bind_err (if cell_gt s_std (Some 0)
                              then cell_div (cell_sub cv s_mean) s_std
                              else Inr (Some 0))
                      (\<lambda>z. Inr \<lparr>name = display, company_value = cv, sector_mean = s_mean,
                                sector_median = s_median, sector_std = s_std,
                                percentile = pct, z_score = z,
                                vs_mean = cell_sub cv s_mean,
                                vs_median = cell_sub cv s_median\<rparr>)))"

fun stats_loop ::
  "aggregates \<Rightarrow> esg_row \<Rightarrow> dataframe \<Rightarrow> (string \<times> (esg_row \<Rightarrow> cell) \<times> string) list
     \<Rightarrow> py_error + (string \<times> peer_stat) list" where
  "stats_loop agg company_row sector_data [] = Inr []"
| "stats_loop agg company_row sector_data ((key, metric, display) # rest) =
     bind_err (metric_stat agg company_row sector_data metric display)
       (\<lambda>st. bind_err (stats_loop agg company_row sector_data rest)
                (\<lambda>sts. Inr ((key, st) # sts)))"

text \<open>
  The result is the dictionary \<open>stats\<close> as the list of its items in insertion order;
  the empty list is the empty dictionary.
\<close>

definition calculate_peer_statistics ::
  "aggregates \<Rightarrow> dataframe \<Rightarrow> string \<Rightarrow> string \<Rightarrow> py_error + (string \<times> peer_stat) list" where
  "calculate_peer_statistics agg data company_name sector_key =
     (let latest_year = year_max data;
          company_data = filter (\<lambda>r. company r = company_name \<and> Some (year r) = latest_year) data;
          sector_data = filter (\<lambda>r. sector r = sector_key \<and> Some (year r) = latest_year) data
      in if company_data = [] \<or> sector_data = [] then Inr []
         else bind_err (iloc0 company_data)
                (\<lambda>company_row. stats_loop agg company_row sector_data peer_metrics))"

text \<open>
  \<open>create_benchmark_matrix\<close>. A metric is looked up among the numeric columns of a row
  (\<open>if metric in row\<close>); a name that is no column is skipped. The metrics are names of
  numeric columns: the text columns \<open>company\<close>, \<open>sector\<close> and \<open>country\<close> are not
  among them, and a call that names one as a metric is outside the model.
\<close>

definition numeric_columns :: "(string \<times> (esg_row \<Rightarrow> cell)) list" where
  "numeric_columns =
     [(''year'', \<lambda>r. Some (real_of_int (year r))),
      (''environmental_score'', environmental_score),
      (''social_score'', social_score),
      (''governance_score'', governance_score),
      (''total_esg_score'', total_esg_score),
      (''carbon_emissions_mt'', carbon_emissions_mt),
      (''safety_incidents'', safety_incidents),
      (''board_independence_pct'', board_independence_pct),
      (''controversy_score'', controversy_score),
      (''diversity_score'', diversity_score),
      (''market_cap_billion'', market_cap_billion)]"

definition default_metrics :: "string list" where
  "default_metrics =
     [''total_esg_score'', ''environmental_score'', ''social_score'', ''governance_score'',
      ''carbon_emissions_mt'', ''diversity_score'', ''board_independence_pct'']"

text \<open>
  The inner loop \<open>for metric in metrics\<close>, filling the dictionary \<open>company_metrics\<close> of
  one row; \<open>latest_rows\<close> are the rows of the latest year of the whole data.
\<close>

fun metrics_loop ::
  "dataframe \<Rightarrow> esg_row \<Rightarrow> string list \<Rightarrow> (string \<rightharpoonup> cell) \<Rightarrow> py_error + (string \<rightharpoonup> cell)" where
  "metrics_loop latest_rows row [] company_metrics = Inr company_metrics"
| "metrics_loop latest_rows row (metric # rest) company_metrics =
     (case map_of numeric_columns metric of
        None \<Rightarrow> metrics_loop latest_rows row rest company_metrics
      | Some col \<Rightarrow>
          let v = col row;
              cm = company_metrics(metric \<mapsto> v);
              all_values = map Some (dropna (map col latest_rows))
          in if length all_values > 0
             then bind_err (checked_div (real (count_lt all_values v)) (real (length all_values)))
                    (\<lambda>q. metrics_loop latest_rows row rest
                            (cm(metric @ ''_percentile'' \<mapsto> Some (q * 100))))
             else metrics_loop latest_rows row rest cm)"

fun matrix_loop ::
  "dataframe \<Rightarrow> string list \<Rightarrow> esg_row list \<Rightarrow> py_error + (string \<times> (string \<rightharpoonup> cell)) list" where
  "matrix_loop latest_rows metrics [] = Inr []"
| "matrix_loop latest_rows metrics (row # rest) =
     bind_err (metrics_loop latest_rows row metrics Map.empty)
       (\<lambda>cm. bind_err (matrix_loop latest_rows metrics rest)
                (\<lambda>matrix. Inr ((company row, cm) # matrix)))"

text \<open>
  A row of the matrix is the pair of its \<open>'Company'\<close> entry and its numeric entries.
\<close>

definition create_benchmark_matrix ::
  "dataframe \<Rightarrow> string list \<Rightarrow> string list option
     \<Rightarrow> py_error + (string \<times> (string \<rightharpoonup> cell)) list" where
  "create_benchmark_matrix data companies metrics_arg =
     (let metrics = (case metrics_arg of None \<Rightarrow> default_metrics | Some ms \<Rightarrow> ms);
          latest_year = year_max data;
          company_data = filter (\<lambda>r. company r \<in> set companies \<and> Some (year r) = latest_year) data
      in if company_data = [] then Inr []
         else matrix_loop (filter (\<lambda>r. Some (year r) = latest_year) data) metrics company_data)"

section \<open>Specification-side notions and sample data\<close>

text \<open>
  A selection criterion as the specification words it: a criterion that is omitted or
  given as the empty list admits every value, a non-empty list admits its members.
\<close>

definition criterion_met :: "'a list option \<Rightarrow> 'a \<Rightarrow> bool" where
  "criterion_met given x = (case given of None \<Rightarrow> True | Some vs \<Rightarrow> vs = [] \<or> x \<in> set vs)"

text \<open>
  Threshold tests on a cell as the specification words them (a missing value is
  neither below nor above a threshold), and a risk flag that is raised or not, with
  severity High or Medium.
\<close>

definition below :: "cell \<Rightarrow> real \<Rightarrow> bool" where
  "below c t = (case c of None \<Rightarrow> False | Some v \<Rightarrow> v < t)"

definition exceeds :: "cell \<Rightarrow> real \<Rightarrow> bool" where
  "exceeds c t = (case c of None \<Rightarrow> False | Some v \<Rightarrow> t < v)"

definition flag :: "bool \<Rightarrow> string \<Rightarrow> bool \<Rightarrow> string \<Rightarrow> risk list" where
  "flag raised cat high descr =
     (if raised
      then [\<lparr>category = cat, severity = (if high then ''High'' else ''Medium''),
             description = descr\<rparr>]
      else [])"

text \<open>
  The rows of a company in its latest year: no row of the company has a later year.
\<close>

definition latest_rows_of :: "dataframe \<Rightarrow> string \<Rightarrow> dataframe" where
  "latest_rows_of df company_name =
     filter (\<lambda>r. company r = company_name \<and>
                  (\<forall>q\<in>set df. company q = company_name \<longrightarrow> year q \<le> year r)) df"

text \<open>
  The rows of the latest year of the whole table, and the number of cells of a column
  that hold a number strictly less than a given cell (which then holds a number too).
\<close>

definition latest_rows :: "dataframe \<Rightarrow> dataframe" where
  "latest_rows df = filter (\<lambda>r. \<forall>q\<in>set df. year q \<le> year r) df"

definition values_below :: "cell list \<Rightarrow> cell \<Rightarrow> nat" where
  "values_below col v =
     length (filter (\<lambda>c. case c of None \<Rightarrow> False | Some x \<Rightarrow> exceeds v x) col)"

text \<open>
  The z-score as the specification words it: value minus mean, divided by the standard
  deviation, when the standard deviation is strictly positive, and 0 when it is zero
  or undefined. A missing value or mean makes the quotient missing.
\<close>

definition z_value :: "cell \<Rightarrow> cell \<Rightarrow> cell \<Rightarrow> cell" where
  "z_value v mu sd =
     (case sd of None \<Rightarrow> Some 0
      | Some s \<Rightarrow> if 0 < s
                  then (case v of None \<Rightarrow> None
                        | Some x \<Rightarrow> (case mu of None \<Rightarrow> None | Some m \<Rightarrow> Some ((x - m) / s)))
                  else Some 0)"

text \<open>
  The percentile rank as the specification words it: the number of values strictly
  less than the given one, divided by a number of rows, times 100. In the benchmark
  matrix the values are the non-null ones of the latest year, and so is the divisor.
\<close>

definition percentile_rank :: "cell list \<Rightarrow> cell \<Rightarrow> nat \<Rightarrow> real" where
  "percentile_rank col v n = real (values_below col v) / real n * 100"

definition pct_of :: "dataframe \<Rightarrow> esg_row \<Rightarrow> (esg_row \<Rightarrow> cell) \<Rightarrow> cell" where
  "pct_of L row col =
     Some (percentile_rank (map Some (dropna (map col L))) (col row) (length (dropna (map col L))))"

text \<open>A small table: one company with two years, and two more companies.\<close>

definition acme_2022 :: esg_row where
  "acme_2022 = \<lparr>company = ''Acme'', sector = ''Energy'', country = ''FR'', year = 2022,
     environmental_score = Some 45, social_score = Some 62, governance_score = Some 58,
     total_esg_score = Some 55, carbon_emissions_mt = Some 120, safety_incidents = Some 12,
     board_independence_pct = Some 55, controversy_score = Some 70, diversity_score = Some 40,
     market_cap_billion = Some 5\<rparr>"

definition acme_2023 :: esg_row where
  "acme_2023 = \<lparr>company = ''Acme'', sector = ''Energy'', country = ''FR'', year = 2023,
     environmental_score = Some 38, social_score = Some 64, governance_score = Some 55,
     total_esg_score = Some 52, carbon_emissions_mt = Some 80, safety_incidents = Some 45,
     board_independence_pct = Some 65, controversy_score = None, diversity_score = Some 42,
     market_cap_billion = Some 6\<rparr>"

definition bolt_2023 :: esg_row where
  "bolt_2023 = \<lparr>company = ''Bolt'', sector = ''Energy'', country = ''DE'', year = 2023,
     environmental_score = Some 40, social_score = Some 70, governance_score = Some 75,
     total_esg_score = Some 54, carbon_emissions_mt = Some 30, safety_incidents = Some 2,
     board_independence_pct = Some 80, controversy_score = Some 90, diversity_score = None,
     market_cap_billion = Some 9\<rparr>"

definition core_2023 :: esg_row where
  "core_2023 = \<lparr>company = ''Core'', sector = ''Energy'', country = ''DE'', year = 2023,
     environmental_score = Some 42, social_score = Some 50, governance_score = Some 65,
     total_esg_score = Some 50, carbon_emissions_mt = Some 60, safety_incidents = Some 25,
     board_independence_pct = Some 70, controversy_score = Some 55, diversity_score = Some 60,
     market_cap_billion = Some 2\<rparr>"

definition sample_data :: dataframe where
  "sample_data = [acme_2023, bolt_2023, acme_2022, core_2023]"

section \<open>Results about the rating tables\<close>

text \<open>
  Claim C8, as stated: for every score the rating letter of \<open>get_esg_rating\<close> is the
  rating of \<open>_score_to_rating\<close>. The two tables differ: at score 72 the loader
  answers AA and the simulator answers A.
\<close>

theorem rating_tables_differ_at_72:
  "fst (get_esg_rating 72) = ''AA'' \<and> score_to_rating 72 = ''A''
   \<and> fst (get_esg_rating 72) \<noteq> score_to_rating 72"
  by simp

text \<open>
  Claim C8, amended: the loader's rating letter and the simulator's rating agree
  exactly on the scores of at least 75 (where both answer AAA or AA); on every score
  below 75 they differ.
\<close>

theorem rating_tables_agree_iff:
  "fst (get_esg_rating score) = score_to_rating score \<longleftrightarrow> 75 \<le> score"
  by simp

section \<open>Results about the simulator\<close>

lemma project_pillars_projected_other:
  "p \<notin> set ps \<Longrightarrow> projected (project_pillars cs imp ps res) p = projected res p"
  by (induction ps arbitrary: res) (auto simp: Let_def)

lemma project_pillars_delta_other:
  "p \<notin> set ps \<Longrightarrow> delta (project_pillars cs imp ps res) p = delta res p"
  by (induction ps arbitrary: res) (auto simp: Let_def)

lemma project_pillars_projected:
  "distinct ps \<Longrightarrow> p \<in> set ps \<Longrightarrow>
   projected (project_pillars cs imp ps res) p =
     Some (min 100 (dict_get cs p 0 + dict_get cs p 0 * dict_get imp p 0 / 100))"
  by (induction ps arbitrary: res) (auto simp: Let_def project_pillars_projected_other)

lemma project_pillars_delta:
  "distinct ps \<Longrightarrow> p \<in> set ps \<Longrightarrow>
   delta (project_pillars cs imp ps res) p =
     Some (min 100 (dict_get cs p 0 + dict_get cs p 0 * dict_get imp p 0 / 100) - dict_get cs p 0)"
  by (induction ps arbitrary: res) (auto simp: Let_def project_pillars_delta_other)

text \<open>
  Claim C1: for all dictionaries of current scores and of improvement percentages,
  \<open>simulate_improvements\<close> returns (no \<open>KeyError\<close>), and for each of the three pillars
  the projected score is \<open>min(100, current + current * improvement_pct / 100)\<close>, a missing
  entry counting as 0, the delta is the projected score minus the current one, and the
  projected score is at most 100.
\<close>

theorem simulate_improvements_projection:
  "\<exists>res. simulate_improvements current_scores improvements = Inr res \<and>
     (\<forall>pillar\<in>set pillars.
        \<exists>proj. proj = min 100 (dict_get current_scores pillar 0
                       + dict_get current_scores pillar 0 * dict_get improvements pillar 0 / 100) \<and>
          projected res pillar = Some proj \<and>
          delta res pillar = Some (proj - dict_get current_scores pillar 0) \<and>
          proj \<le> 100)"
  by (simp add: simulate_improvements_def Let_def bind_err_def dict_item_def
      project_pillars_projected project_pillars_delta pillars_def)

theorem simulate_improvements_projection_witness:
  "\<exists>res. simulate_improvements [''environmental'' \<mapsto> 80, ''social'' \<mapsto> 50]
            [''environmental'' \<mapsto> 50, ''social'' \<mapsto> 10] = Inr res \<and>
     projected res ''environmental'' = Some 100 \<and> delta res ''environmental'' = Some 20 \<and>
     projected res ''social'' = Some 55 \<and> delta res ''social'' = Some 5 \<and>
     projected res ''governance'' = Some 0 \<and> delta res ''governance'' = Some 0"
  using simulate_improvements_projection
    [of "[''environmental'' \<mapsto> 80, ''social'' \<mapsto> 50]"
        "[''environmental'' \<mapsto> 50, ''social'' \<mapsto> 10]"]
  by (simp add: pillars_def dict_get_def)



















section \<open>Results about the data loader\<close>

lemmas sample_defs = sample_data_def acme_2022_def acme_2023_def bolt_2023_def core_2023_def

lemma filter_isin_criterion:
  "(if truthy sel then filter (\<lambda>r. isin (f r) sel) rows else rows) =
   filter (\<lambda>r. criterion_met sel (f r)) rows"
  by (cases sel) (auto simp: truthy_def isin_def criterion_met_def intro: filter_cong)

lemma frame_where_step:
  assumes "(if c then frame_where st r keep else (st, r)) = (st', r')" and "r < length st"
  shows "length st \<le> length st' \<and> (\<forall>a<length st. st' ! a = st ! a) \<and> r' < length st' \<and>
         r \<le> r' \<and> st' ! r' = (if c then filter keep (st ! r) else st ! r)"
  using assms by (auto simp: frame_where_def new_frame_def nth_append split: if_splits)

lemma filter_data_in_store_frame:
  assumes "df < length st"
  shows "\<exists>st' out. filter_data_in_store st df companies sectors countries years = (st', out) \<and>
     length st \<le> length st' \<and> (\<forall>a<length st. st' ! a = st ! a) \<and>
     out < length st' \<and> length st \<le> out \<and>
     st' ! out = filter_data (st ! df) companies sectors countries years"
proof -
  obtain s0 r0 where c0: "frame_copy st df = (s0, r0)"
    by (cases "frame_copy st df")
  then have p0: "length st \<le> length s0" "\<forall>a<length st. s0 ! a = st ! a" "r0 < length s0"
    "length st \<le> r0" "s0 ! r0 = st ! df"
    by (auto simp: frame_copy_def new_frame_def nth_append)
  obtain s1 r1 where c1: "(if truthy companies
      then frame_where s0 r0 (\<lambda>r. isin (company r) companies) else (s0, r0)) = (s1, r1)"
    by (cases "if truthy companies
      then frame_where s0 r0 (\<lambda>r. isin (company r) companies) else (s0, r0)")
  note p1 = frame_where_step[OF c1 p0(3)]
  obtain s2 r2 where c2: "(if truthy sectors
      then frame_where s1 r1 (\<lambda>r. isin (sector r) sectors) else (s1, r1)) = (s2, r2)"
    by (cases "if truthy sectors
      then frame_where s1 r1 (\<lambda>r. isin (sector r) sectors) else (s1, r1)")
  note p2 = frame_where_step[OF c2 p1[THEN conjunct2, THEN conjunct2, THEN conjunct1]]
  obtain s3 r3 where c3: "(if truthy countries
      then frame_where s2 r2 (\<lambda>r. isin (country r) countries) else (s2, r2)) = (s3, r3)"
    by (cases "if truthy countries
      then frame_where s2 r2 (\<lambda>r. isin (country r) countries) else (s2, r2)")
  note p3 = frame_where_step[OF c3 p2[THEN conjunct2, THEN conjunct2, THEN conjunct1]]
  obtain s4 r4 where c4: "(if truthy years
      then frame_where s3 r3 (\<lambda>r. isin (year r) years) else (s3, r3)) = (s4, r4)"
    by (cases "if truthy years
      then frame_where s3 r3 (\<lambda>r. isin (year r) years) else (s3, r3)")
  note p4 = frame_where_step[OF c4 p3[THEN conjunct2, THEN conjunct2, THEN conjunct1]]
  have run: "filter_data_in_store st df companies sectors countries years = (s4, r4)"
    by (simp add: filter_data_in_store_def c0 c1 c2 c3 c4)
  have len: "length st \<le> length s4"
    using p0(1) p1 p2 p3 p4 by linarith
  have keep: "\<forall>a<length st. s4 ! a = st ! a"
    using p0(1,2) p1 p2 p3 p4 by (metis (no_types, lifting) le_trans less_le_trans)
  have fresh: "length st \<le> r4"
    using p0(4) p1 p2 p3 p4 by linarith
  have rows: "s4 ! r4 = filter_data (st ! df) companies sectors countries years"
    using p0(5) p1 p2 p3 p4 by (simp add: filter_data_def Let_def)
  show ?thesis
    using run len keep fresh rows p4 by blast
qed


text \<open>
  Claim C6: for every data frame and every combination of criteria, \<open>filter_data\<close>
  returns exactly the rows of the input for which every criterion given as a non-empty
  list holds (the field is a member of the list), in their original order and
  multiplicity. Run on a store of frames, the call returns a new frame with these
  rows and leaves every frame that existed before the call, the input among them, as
  it was.
\<close>

theorem filter_data_selects:
  "filter_data df companies sectors countries years =
     filter (\<lambda>r. criterion_met companies (company r) \<and> criterion_met sectors (sector r) \<and>
                  criterion_met countries (country r) \<and> criterion_met years (year r)) df
   \<and> subseq (filter_data df companies sectors countries years) df
   \<and> (\<forall>r. r \<in> set (filter_data df companies sectors countries years) \<longleftrightarrow>
          r \<in> set df \<and> criterion_met companies (company r) \<and> criterion_met sectors (sector r) \<and>
          criterion_met countries (country r) \<and> criterion_met years (year r))
   \<and> (\<forall>st ref. ref < length st \<and> st ! ref = df \<longrightarrow>
         (\<exists>st' out. filter_data_in_store st ref companies sectors countries years = (st', out) \<and>
            (\<forall>a<length st. st' ! a = st ! a) \<and> st' ! ref = df \<and>
            out < length st' \<and> out \<noteq> ref \<and>
            st' ! out = filter_data df companies sectors countries years))"
proof -
  have eq: "filter_data df companies sectors countries years =
     filter (\<lambda>r. criterion_met companies (company r) \<and> criterion_met sectors (sector r) \<and>
                  criterion_met countries (country r) \<and> criterion_met years (year r)) df"
    unfolding filter_data_def Let_def filter_isin_criterion
    by (auto intro: filter_cong)
  have pure: "filter_data df companies sectors countries years =
     filter (\<lambda>r. criterion_met companies (company r) \<and> criterion_met sectors (sector r) \<and>
                  criterion_met countries (country r) \<and> criterion_met years (year r)) df
   \<and> subseq (filter_data df companies sectors countries years) df
   \<and> (\<forall>r. r \<in> set (filter_data df companies sectors countries years) \<longleftrightarrow>
          r \<in> set df \<and> criterion_met companies (company r) \<and> criterion_met sectors (sector r) \<and>
          criterion_met countries (country r) \<and> criterion_met years (year r))"
    unfolding eq by auto
  have obj: "\<forall>st ref. ref < length st \<and> st ! ref = df \<longrightarrow>
         (\<exists>st' out. filter_data_in_store st ref companies sectors countries years = (st', out) \<and>
            (\<forall>a<length st. st' ! a = st ! a) \<and> st' ! ref = df \<and>
            out < length st' \<and> out \<noteq> ref \<and>
            st' ! out = filter_data df companies sectors countries years)"
  proof (intro allI impI)
    fix st ref assume a: "ref < length st \<and> st ! ref = df"
    then have r: "ref < length st" and d: "st ! ref = df"
      by simp_all
    from filter_data_in_store_frame[OF r, of companies sectors countries years]
    obtain st' out where
      run: "filter_data_in_store st ref companies sectors countries years = (st', out)"
      and keep: "\<forall>a<length st. st' ! a = st ! a"
      and out: "out < length st'" "length st \<le> out"
      and rows: "st' ! out = filter_data (st ! ref) companies sectors countries years"
      by blast
    have "st' ! ref = df"
      using keep r d by simp
    moreover have "out \<noteq> ref"
      using out(2) r by simp
    ultimately show "\<exists>st' out. filter_data_in_store st ref companies sectors countries years = (st', out) \<and>
            (\<forall>a<length st. st' ! a = st ! a) \<and> st' ! ref = df \<and>
            out < length st' \<and> out \<noteq> ref \<and>
            st' ! out = filter_data df companies sectors countries years"
      using run keep out(1) rows d by (intro exI[of _ st'] exI[of _ out] conjI) simp_all
  qed
  from pure obj show ?thesis
    by (intro conjI) (elim conjE, assumption)+
qed

theorem filter_data_selects_witness:
  "filter_data sample_data (Some [''Acme'', ''Core'']) (Some []) None (Some [2023])
     = [acme_2023, core_2023]
   \<and> (\<exists>st' out. filter_data_in_store [sample_data] 0 (Some [''Acme'', ''Core'']) (Some []) None
                  (Some [2023]) = (st', out) \<and>
         st' ! 0 = sample_data \<and> out \<noteq> 0 \<and> st' ! out = [acme_2023, core_2023])"
proof -
  note main = filter_data_selects
    [of sample_data "Some [''Acme'', ''Core'']" "Some []" None "Some [2023]"]
  have rows: "filter_data sample_data (Some [''Acme'', ''Core'']) (Some []) None (Some [2023])
     = [acme_2023, core_2023]"
    using main[THEN conjunct1] by (simp add: criterion_met_def sample_defs)
  have ref: "0 < length [sample_data] \<and> [sample_data] ! 0 = sample_data"
    by simp
  from main[THEN conjunct2, THEN conjunct2, THEN conjunct2, rule_format, OF ref]
  obtain st' out where
    r: "filter_data_in_store [sample_data] 0 (Some [''Acme'', ''Core'']) (Some []) None
          (Some [2023]) = (st', out) \<and>
        (\<forall>a<length [sample_data]. st' ! a = [sample_data] ! a) \<and> st' ! 0 = sample_data \<and>
        out < length st' \<and> out \<noteq> 0 \<and>
        st' ! out = filter_data sample_data (Some [''Acme'', ''Core'']) (Some []) None (Some [2023])"
    by (elim exE)
  have "st' ! out = [acme_2023, core_2023]"
    using r rows by simp
  with r rows show ?thesis
    by (intro conjI exI[of _ st'] exI[of _ out]) simp_all
qed

text \<open>
  Claim C10: with every criterion omitted or given as the empty list, \<open>filter_data\<close>
  returns the input frame.
\<close>

theorem filter_data_no_criteria:
  assumes "companies = None \<or> companies = Some []"
    and "sectors = None \<or> sectors = Some []"
    and "countries = None \<or> countries = Some []"
    and "years = None \<or> years = Some []"
  shows "filter_data df companies sectors countries years = df"
  using assms by (auto simp: filter_data_def truthy_def)

theorem filter_data_no_criteria_witness:
  "filter_data sample_data None (Some []) None (Some []) = sample_data"
  using filter_data_no_criteria [of None "Some []" None "Some []" sample_data]
  by simp

lemma diff_length: "length (diff xs) = length xs"
  by (cases xs) simp_all

lemma diff_nth:
  "i < length xs \<Longrightarrow> diff xs ! i = (if i = 0 then None else cell_sub (xs ! i) (xs ! (i - 1)))"
  by (cases xs; cases i) simp_all

lemma add_changes_fields:
  "environmental_score_change (add_changes r (e, s, g, t)) = e"
  "social_score_change (add_changes r (e, s, g, t)) = s"
  "governance_score_change (add_changes r (e, s, g, t)) = g"
  "total_esg_score_change (add_changes r (e, s, g, t)) = t"
  "environmental_score (add_changes r (e, s, g, t)) = environmental_score r"
  "social_score (add_changes r (e, s, g, t)) = social_score r"
  "governance_score (add_changes r (e, s, g, t)) = governance_score r"
  "total_esg_score (add_changes r (e, s, g, t)) = total_esg_score r"
  "year (add_changes r (e, s, g, t)) = year r"
  "company (add_changes r (e, s, g, t)) = company r"
  by (simp_all add: add_changes_def esg_row.defs yoy_row.defs)

lemma truncate_add_changes: "esg_row.truncate (add_changes r ch) = r"
  by (cases ch) (simp add: add_changes_def esg_row.defs yoy_row.defs)


lemma calculate_yoy_change_length:
  "length (calculate_yoy_change df c) = length (filter (\<lambda>r. company r = c) df)"
  by (simp add: calculate_yoy_change_def Let_def diff_length)

lemma calculate_yoy_change_nth:
  assumes "i < length (filter (\<lambda>r. company r = c) df)"
  shows "calculate_yoy_change df c ! i =
     add_changes (sort_key year (filter (\<lambda>r. company r = c) df) ! i)
       (diff (map environmental_score (sort_key year (filter (\<lambda>r. company r = c) df))) ! i,
        diff (map social_score (sort_key year (filter (\<lambda>r. company r = c) df))) ! i,
        diff (map governance_score (sort_key year (filter (\<lambda>r. company r = c) df))) ! i,
        diff (map total_esg_score (sort_key year (filter (\<lambda>r. company r = c) df))) ! i)"
  using assms by (simp add: calculate_yoy_change_def Let_def diff_length)

lemma calculate_yoy_change_scores:
  assumes "i < length (filter (\<lambda>r. company r = c) df)"
  shows "environmental_score (calculate_yoy_change df c ! i) =
           environmental_score (sort_key year (filter (\<lambda>r. company r = c) df) ! i)"
    and "social_score (calculate_yoy_change df c ! i) =
           social_score (sort_key year (filter (\<lambda>r. company r = c) df) ! i)"
    and "governance_score (calculate_yoy_change df c ! i) =
           governance_score (sort_key year (filter (\<lambda>r. company r = c) df) ! i)"
    and "total_esg_score (calculate_yoy_change df c ! i) =
           total_esg_score (sort_key year (filter (\<lambda>r. company r = c) df) ! i)"
  by (simp_all add: calculate_yoy_change_nth[OF assms] add_changes_fields)

lemma calculate_yoy_change_changes:
  assumes "i < length (filter (\<lambda>r. company r = c) df)"
  shows "environmental_score_change (calculate_yoy_change df c ! i) =
           diff (map environmental_score (sort_key year (filter (\<lambda>r. company r = c) df))) ! i"
    and "social_score_change (calculate_yoy_change df c ! i) =
           diff (map social_score (sort_key year (filter (\<lambda>r. company r = c) df))) ! i"
    and "governance_score_change (calculate_yoy_change df c ! i) =
           diff (map governance_score (sort_key year (filter (\<lambda>r. company r = c) df))) ! i"
    and "total_esg_score_change (calculate_yoy_change df c ! i) =
           diff (map total_esg_score (sort_key year (filter (\<lambda>r. company r = c) df))) ! i"
  by (simp_all add: calculate_yoy_change_nth[OF assms] add_changes_fields)

lemma calculate_yoy_change_rows:
  "map esg_row.truncate (calculate_yoy_change df c) =
     sort_key year (filter (\<lambda>r. company r = c) df)"
  by (rule nth_equalityI)
     (simp_all add: calculate_yoy_change_length calculate_yoy_change_nth truncate_add_changes)

lemma calculate_yoy_change_years:
  "map year (calculate_yoy_change df c) =
     map year (sort_key year (filter (\<lambda>r. company r = c) df))"
  by (rule nth_equalityI)
     (simp_all add: calculate_yoy_change_length calculate_yoy_change_nth add_changes_fields)

text \<open>
  Claim C5: \<open>calculate_yoy_change\<close> returns the rows of the company (exactly those,
  with their original columns) sorted by ascending year, and each of the four change
  columns is NaN in the first row and, in every later row, the score of the row minus
  the score of the row before it in that order.
\<close>

theorem calculate_yoy_change_sorted_diffs:
  "sorted (map year (calculate_yoy_change df c)) \<and>
   mset (map esg_row.truncate (calculate_yoy_change df c)) = mset (filter (\<lambda>r. company r = c) df) \<and>
   (\<forall>i<length (calculate_yoy_change df c).
      environmental_score_change (calculate_yoy_change df c ! i) =
        (if i = 0 then None
         else cell_sub (environmental_score (calculate_yoy_change df c ! i))
                       (environmental_score (calculate_yoy_change df c ! (i - 1)))) \<and>
      social_score_change (calculate_yoy_change df c ! i) =
        (if i = 0 then None
         else cell_sub (social_score (calculate_yoy_change df c ! i))
                       (social_score (calculate_yoy_change df c ! (i - 1)))) \<and>
      governance_score_change (calculate_yoy_change df c ! i) =
        (if i = 0 then None
         else cell_sub (governance_score (calculate_yoy_change df c ! i))
                       (governance_score (calculate_yoy_change df c ! (i - 1)))) \<and>
      total_esg_score_change (calculate_yoy_change df c ! i) =
        (if i = 0 then None
         else cell_sub (total_esg_score (calculate_yoy_change df c ! i))
                       (total_esg_score (calculate_yoy_change df c ! (i - 1)))))"
proof (intro conjI allI impI)
  show "sorted (map year (calculate_yoy_change df c))"
    by (simp add: calculate_yoy_change_years)
  show "mset (map esg_row.truncate (calculate_yoy_change df c)) = mset (filter (\<lambda>r. company r = c) df)"
    by (simp add: calculate_yoy_change_rows)
next
  fix i assume "i < length (calculate_yoy_change df c)"
  then have i: "i < length (filter (\<lambda>r. company r = c) df)"
    by (simp add: calculate_yoy_change_length)
  then have p: "i - 1 < length (filter (\<lambda>r. company r = c) df)"
    by simp
  note facts = calculate_yoy_change_scores calculate_yoy_change_changes diff_nth
  show "environmental_score_change (calculate_yoy_change df c ! i) =
        (if i = 0 then None
         else cell_sub (environmental_score (calculate_yoy_change df c ! i))
                       (environmental_score (calculate_yoy_change df c ! (i - 1))))"
    using i p by (simp add: facts)
  show "social_score_change (calculate_yoy_change df c ! i) =
        (if i = 0 then None
         else cell_sub (social_score (calculate_yoy_change df c ! i))
                       (social_score (calculate_yoy_change df c ! (i - 1))))"
    using i p by (simp add: facts)
  show "governance_score_change (calculate_yoy_change df c ! i) =
        (if i = 0 then None
         else cell_sub (governance_score (calculate_yoy_change df c ! i))
                       (governance_score (calculate_yoy_change df c ! (i - 1))))"
    using i p by (simp add: facts)
  show "total_esg_score_change (calculate_yoy_change df c ! i) =
        (if i = 0 then None
         else cell_sub (total_esg_score (calculate_yoy_change df c ! i))
                       (total_esg_score (calculate_yoy_change df c ! (i - 1))))"
    using i p by (simp add: facts)
qed

theorem calculate_yoy_change_sorted_diffs_witness:
  "map year (calculate_yoy_change sample_data ''Acme'') = [2022, 2023] \<and>
   environmental_score_change (calculate_yoy_change sample_data ''Acme'' ! 0) = None \<and>
   environmental_score_change (calculate_yoy_change sample_data ''Acme'' ! 1) = Some (- 7) \<and>
   social_score_change (calculate_yoy_change sample_data ''Acme'' ! 1) = Some 2 \<and>
   governance_score_change (calculate_yoy_change sample_data ''Acme'' ! 1) = Some (- 3) \<and>
   total_esg_score_change (calculate_yoy_change sample_data ''Acme'' ! 1) = Some (- 3)"
proof -
  have len: "length (calculate_yoy_change sample_data ''Acme'') = 2"
    by (simp add: calculate_yoy_change_length sample_defs)
  have i: "0 < length (calculate_yoy_change sample_data ''Acme'')"
    "1 < length (calculate_yoy_change sample_data ''Acme'')"
    using len by simp_all
  have rows: "map esg_row.truncate (calculate_yoy_change sample_data ''Acme'') = [acme_2022, acme_2023]"
    by (simp add: calculate_yoy_change_rows sample_defs)
  have r0: "esg_row.truncate (calculate_yoy_change sample_data ''Acme'' ! 0) = acme_2022"
    and r1: "esg_row.truncate (calculate_yoy_change sample_data ''Acme'' ! 1) = acme_2023"
    using rows i by (metis nth_map nth_Cons_0, metis nth_map nth_Cons_0 nth_Cons_Suc One_nat_def)
  have s0: "environmental_score (calculate_yoy_change sample_data ''Acme'' ! 0) = Some 45"
    "social_score (calculate_yoy_change sample_data ''Acme'' ! 0) = Some 62"
    "governance_score (calculate_yoy_change sample_data ''Acme'' ! 0) = Some 58"
    "total_esg_score (calculate_yoy_change sample_data ''Acme'' ! 0) = Some 55"
    using arg_cong[OF r0, of environmental_score] arg_cong[OF r0, of social_score]
      arg_cong[OF r0, of governance_score] arg_cong[OF r0, of total_esg_score]
    by (simp_all add: esg_row.defs acme_2022_def)
  have s1: "environmental_score (calculate_yoy_change sample_data ''Acme'' ! 1) = Some 38"
    "social_score (calculate_yoy_change sample_data ''Acme'' ! 1) = Some 64"
    "governance_score (calculate_yoy_change sample_data ''Acme'' ! 1) = Some 55"
    "total_esg_score (calculate_yoy_change sample_data ''Acme'' ! 1) = Some 52"
    using arg_cong[OF r1, of environmental_score] arg_cong[OF r1, of social_score]
      arg_cong[OF r1, of governance_score] arg_cong[OF r1, of total_esg_score]
    by (simp_all add: esg_row.defs acme_2023_def)
  have y: "map year (calculate_yoy_change sample_data ''Acme'') = [2022, 2023]"
    using arg_cong[OF rows, of "map year"] by (simp add: esg_row.defs sample_defs comp_def)
  from calculate_yoy_change_sorted_diffs[of sample_data "''Acme''"]
  have d: "\<forall>i<length (calculate_yoy_change sample_data ''Acme'').
      environmental_score_change (calculate_yoy_change sample_data ''Acme'' ! i) =
        (if i = 0 then None
         else cell_sub (environmental_score (calculate_yoy_change sample_data ''Acme'' ! i))
                       (environmental_score (calculate_yoy_change sample_data ''Acme'' ! (i - 1)))) \<and>
      social_score_change (calculate_yoy_change sample_data ''Acme'' ! i) =
        (if i = 0 then None
         else cell_sub (social_score (calculate_yoy_change sample_data ''Acme'' ! i))
                       (social_score (calculate_yoy_change sample_data ''Acme'' ! (i - 1)))) \<and>
      governance_score_change (calculate_yoy_change sample_data ''Acme'' ! i) =
        (if i = 0 then None
         else cell_sub (governance_score (calculate_yoy_change sample_data ''Acme'' ! i))
                       (governance_score (calculate_yoy_change sample_data ''Acme'' ! (i - 1)))) \<and>
      total_esg_score_change (calculate_yoy_change sample_data ''Acme'' ! i) =
        (if i = 0 then None
         else cell_sub (total_esg_score (calculate_yoy_change sample_data ''Acme'' ! i))
                       (total_esg_score (calculate_yoy_change sample_data ''Acme'' ! (i - 1))))"
    by (elim conjE)
  show ?thesis
    using d[rule_format, OF i(1)] d[rule_format, OF i(2)] y
    by (simp add: s0 s1[unfolded One_nat_def] cell_sub_def)
qed

section \<open>Results about the analyzer\<close>

lemma no_company_rows:
  "company_name \<notin> set (map company df) \<Longrightarrow> filter (\<lambda>r. company r = company_name) df = []"
  by (induction df) auto

lemma no_company_rows_latest:
  "company_name \<notin> set (map company df) \<Longrightarrow>
   filter (\<lambda>r. company r = company_name \<and> P r) df = []"
  by (induction df) auto

text \<open>
  Claim C9: for a company name that does not occur in the company column, the analysis
  operations return their empty results and raise nothing: \<open>identify_risks\<close> the empty
  list, \<open>calculate_sector_benchmark\<close> the empty dictionary, \<open>calculate_improvement_areas\<close>
  the empty list and \<open>calculate_peer_statistics\<close> the empty dictionary.
\<close>

theorem absent_company_empty_results:
  assumes "company_name \<notin> set (map company df)"
  shows "identify_risks fmt df company_name = Inr [] \<and>
         calculate_sector_benchmark df company_name = Inr None \<and>
         calculate_improvement_areas df company_name = Inr [] \<and>
         calculate_peer_statistics agg df company_name sector_key = Inr []"
proof (intro conjI)
  show "identify_risks fmt df company_name = Inr []"
    by (simp add: identify_risks_def no_company_rows[OF assms])
  show b: "calculate_sector_benchmark df company_name = Inr None"
    by (simp add: calculate_sector_benchmark_def no_company_rows[OF assms])
  show "calculate_improvement_areas df company_name = Inr []"
    by (simp add: calculate_improvement_areas_def b bind_err_def)
  show "calculate_peer_statistics agg df company_name sector_key = Inr []"
    by (simp add: calculate_peer_statistics_def Let_def no_company_rows_latest[OF assms])
qed

theorem absent_company_empty_results_witness:
  "identify_risks (\<lambda>c. ''x'') sample_data ''Zeta'' = Inr [] \<and>
   calculate_sector_benchmark sample_data ''Zeta'' = Inr None \<and>
   calculate_improvement_areas sample_data ''Zeta'' = Inr [] \<and>
   calculate_peer_statistics exact_aggregates sample_data ''Zeta'' ''Energy'' = Inr []"
proof -
  have "''Zeta'' \<notin> set (map company sample_data)"
    by (simp add: sample_data_def acme_2022_def acme_2023_def bolt_2023_def core_2023_def)
  then show ?thesis
    by (rule absent_company_empty_results)
qed

lemma year_max_filter:
  assumes "r \<in> set rows"
  shows "Some (year r) = year_max rows \<longleftrightarrow> (\<forall>q\<in>set rows. year q \<le> year r)"
proof -
  from assms have ne: "rows \<noteq> []" by auto
  have fin: "finite (set (map year rows))" by simp
  have mem: "year r \<in> set (map year rows)" using assms by simp
  show ?thesis
  proof
    assume "Some (year r) = year_max rows"
    then have "year r = Max (set (map year rows))"
      using ne by (simp add: year_max_def)
    then show "\<forall>q\<in>set rows. year q \<le> year r"
      using Max_ge[OF fin] by simp
  next
    assume a: "\<forall>q\<in>set rows. year q \<le> year r"
    have "Max (set (map year rows)) = year r"
      by (rule Max_eqI[OF fin]) (use a mem in auto)
    then show "Some (year r) = year_max rows"
      using ne by (simp add: year_max_def)
  qed
qed

lemma latest_of_company:
  "filter (\<lambda>r. Some (year r) = year_max (filter (\<lambda>r. company r = c) df))
     (filter (\<lambda>r. company r = c) df) = latest_rows_of df c"
  unfolding latest_rows_of_def filter_filter
  by (rule filter_cong[OF refl]) (auto simp: year_max_filter)

lemma year_max_attained:
  assumes "rows \<noteq> []"
  shows "filter (\<lambda>r. Some (year r) = year_max rows) rows \<noteq> []"
proof -
  have "Max (set (map year rows)) \<in> set (map year rows)"
    using assms by (intro Max_in) simp_all
  then obtain r where "r \<in> set rows" "year r = Max (set (map year rows))"
    by auto
  then have "r \<in> set (filter (\<lambda>r. Some (year r) = year_max rows) rows)"
    using assms by (simp add: year_max_def)
  then show ?thesis
    by (metis empty_iff empty_set)
qed

lemma latest_rows_of_nonempty:
  assumes "c \<in> set (map company df)"
  shows "latest_rows_of df c \<noteq> []"
proof -
  from assms have "filter (\<lambda>r. company r = c) df \<noteq> []"
    by (auto simp: filter_empty_conv)
  from year_max_attained[OF this] show ?thesis
    unfolding latest_of_company .
qed

lemma risk_step_lt:
  "(if cell_lt v (Some t)
    then rs @ [\<lparr>category = c, severity = (if cell_lt v (Some h) then ''High'' else ''Medium''),
               description = d\<rparr>]
    else rs) = rs @ flag (below v t) c (below v h) d"
  by (cases v) (simp_all add: flag_def below_def cell_lt_def)

lemma risk_step_gt:
  "(if cell_gt v (Some t)
    then rs @ [\<lparr>category = c, severity = (if cell_gt v (Some h) then ''High'' else ''Medium''),
               description = d\<rparr>]
    else rs) = rs @ flag (exceeds v t) c (exceeds v h) d"
  by (cases v) (simp_all add: flag_def exceeds_def cell_lt_def cell_gt_def)

lemma risk_step_medium:
  "(if cell_lt v (Some t)
    then rs @ [\<lparr>category = c, severity = ''Medium'', description = d\<rparr>]
    else rs) = rs @ flag (below v t) c False d"
  by (cases v) (simp_all add: flag_def below_def cell_lt_def)

text \<open>
  Claim C4: for a company present in the data, \<open>identify_risks\<close> returns exactly
  the flags fixed by the thresholds on the first of the company's latest-year rows, in
  this order: Environmental iff the environmental score is below 50 (High iff below
  40, else Medium); emissions iff carbon emissions exceed 50 (High iff above 100);
  Social iff the social score is below 50 (High iff below 40); safety iff the safety
  incidents exceed 20 (High iff above 40); Governance iff the governance score is
  below 60 (High iff below 50); board iff board independence is below 60 (always
  Medium); controversy iff the controversy score is below 60 (High iff below 50).
\<close>

theorem identify_risks_flags:
  assumes "company_name \<in> set (map company df)"
  shows "\<exists>latest rest. latest_rows_of df company_name = latest # rest \<and>
     identify_risks fmt df company_name = Inr
       (flag (below (environmental_score latest) 50) ''Environmental''
             (below (environmental_score latest) 40)
             (''Environmental score ('' @ fmt (environmental_score latest)
                @ '') below industry threshold'')
        @ flag (exceeds (carbon_emissions_mt latest) 50) ''Environmental''
             (exceeds (carbon_emissions_mt latest) 100)
             (''High carbon emissions ('' @ fmt (carbon_emissions_mt latest) @ '' MT)'')
        @ flag (below (social_score latest) 50) ''Social''
             (below (social_score latest) 40)
             (''Social score ('' @ fmt (social_score latest)
                @ '') indicates workforce or community concerns'')
        @ flag (exceeds (safety_incidents latest) 20) ''Social''
             (exceeds (safety_incidents latest) 40)
             (''Elevated safety incidents ('' @ fmt (safety_incidents latest) @ '' reported)'')
        @ flag (below (governance_score latest) 60) ''Governance''
             (below (governance_score latest) 50)
             (''Governance score ('' @ fmt (governance_score latest)
                @ '') suggests oversight concerns'')
        @ flag (below (board_independence_pct latest) 60) ''Governance'' False
             (''Low board independence ('' @ fmt (board_independence_pct latest) @ ''%)'')
        @ flag (below (controversy_score latest) 60) ''Reputation''
             (below (controversy_score latest) 50)
             (''Controversy score ('' @ fmt (controversy_score latest)
                @ '') indicates reputational risks''))"
proof -
  from latest_rows_of_nonempty[OF assms] obtain latest rest
    where l: "latest_rows_of df company_name = latest # rest"
    by (cases "latest_rows_of df company_name") auto
  from assms have ne: "filter (\<lambda>r. company r = company_name) df \<noteq> []"
    by (auto simp: filter_empty_conv)
  have "identify_risks fmt df company_name = Inr
       (flag (below (environmental_score latest) 50) ''Environmental''
             (below (environmental_score latest) 40)
             (''Environmental score ('' @ fmt (environmental_score latest)
                @ '') below industry threshold'')
        @ flag (exceeds (carbon_emissions_mt latest) 50) ''Environmental''
             (exceeds (carbon_emissions_mt latest) 100)
             (''High carbon emissions ('' @ fmt (carbon_emissions_mt latest) @ '' MT)'')
        @ flag (below (social_score latest) 50) ''Social''
             (below (social_score latest) 40)
             (''Social score ('' @ fmt (social_score latest)
                @ '') indicates workforce or community concerns'')
        @ flag (exceeds (safety_incidents latest) 20) ''Social''
             (exceeds (safety_incidents latest) 40)
             (''Elevated safety incidents ('' @ fmt (safety_incidents latest) @ '' reported)'')
        @ flag (below (governance_score latest) 60) ''Governance''
             (below (governance_score latest) 50)
             (''Governance score ('' @ fmt (governance_score latest)
                @ '') suggests oversight concerns'')
        @ flag (below (board_independence_pct latest) 60) ''Governance'' False
             (''Low board independence ('' @ fmt (board_independence_pct latest) @ ''%)'')
        @ flag (below (controversy_score latest) 60) ''Reputation''
             (below (controversy_score latest) 50)
             (''Controversy score ('' @ fmt (controversy_score latest)
                @ '') indicates reputational risks''))"
    unfolding identify_risks_def Let_def latest_of_company l
    by (simp only: ne if_False iloc0_def list.case bind_err_def sum.case
        risk_step_lt risk_step_gt risk_step_medium)
       (simp only: append_Nil append_assoc)
  with l show ?thesis
    by blast
qed


theorem identify_risks_flags_witness:
  "identify_risks (\<lambda>c. ''n'') sample_data ''Acme'' = Inr
     [\<lparr>category = ''Environmental'', severity = ''High'',
        description = ''Environmental score (n) below industry threshold''\<rparr>,
      \<lparr>category = ''Environmental'', severity = ''Medium'',
        description = ''High carbon emissions (n MT)''\<rparr>,
      \<lparr>category = ''Social'', severity = ''High'',
        description = ''Elevated safety incidents (n reported)''\<rparr>,
      \<lparr>category = ''Governance'', severity = ''Medium'',
        description = ''Governance score (n) suggests oversight concerns''\<rparr>]"
proof -
  have present: "''Acme'' \<in> set (map company sample_data)"
    by (simp add: sample_data_def acme_2023_def)
  have latest: "latest_rows_of sample_data ''Acme'' = [acme_2023]"
    by (simp add: latest_rows_of_def sample_data_def acme_2022_def acme_2023_def
        bolt_2023_def core_2023_def)
  from identify_risks_flags[OF present, of "\<lambda>c. ''n''"] latest
  show ?thesis
    by (simp add: acme_2023_def flag_def below_def exceeds_def)
qed

section \<open>Results about peer benchmarking\<close>

lemma count_lt_values_below: "count_lt col v = values_below col v"
  unfolding count_lt_def values_below_def
  by (rule arg_cong[where f = length], rule filter_cong[OF refl])
     (auto simp: cell_lt_def exceeds_def split: option.splits)

lemma latest_rows_year_max:
  "filter (\<lambda>r. P r \<and> Some (year r) = year_max data) data = filter P (latest_rows data)"
  unfolding latest_rows_def filter_filter
  by (rule filter_cong[OF refl]) (auto simp: year_max_filter)

lemma latest_rows_year_max_all:
  "filter (\<lambda>r. Some (year r) = year_max data) data = latest_rows data"
  using latest_rows_year_max[of "\<lambda>r. True" data] by simp



lemma z_score_step:
  "(if cell_gt sd (Some 0) then cell_div (cell_sub v mu) sd else Inr (Some 0))
     = Inr (z_value v mu sd)"
  by (auto simp: cell_gt_def cell_lt_def cell_div_def cell_sub_def checked_div_def bind_err_def
      z_value_def split: option.splits)

lemma metric_stat_returns:
  assumes "sector_data \<noteq> []"
  shows "\<exists>st. metric_stat agg crow sector_data metric display = Inr st \<and>
     name st = display \<and> company_value st = metric crow \<and>
     percentile st = real (values_below (map metric sector_data) (metric crow))
                       / real (length sector_data) * 100 \<and>
     z_score st = z_value (metric crow) (agg_mean agg (map metric sector_data))
                    (agg_std agg (map metric sector_data))"
  using assms
  by (simp add: metric_stat_def Let_def checked_div_def bind_err_def z_score_step
      count_lt_values_below)

lemma stats_loop_returns:
  assumes "sector_data \<noteq> []"
  shows "\<exists>res. stats_loop agg crow sector_data ms = Inr res \<and> map fst res = map fst ms \<and>
     (\<forall>(key, metric, display)\<in>set ms. \<exists>st. (key, st) \<in> set res \<and>
        percentile st = real (values_below (map metric sector_data) (metric crow))
                          / real (length sector_data) * 100 \<and>
        z_score st = z_value (metric crow) (agg_mean agg (map metric sector_data))
                       (agg_std agg (map metric sector_data)))"
proof (induction ms)
  case Nil
  show ?case by simp
next
  case (Cons m ms)
  obtain key metric display where m: "m = (key, metric, display)"
    by (cases m) auto
  from metric_stat_returns[OF assms, of agg crow metric display] obtain st where
    st: "metric_stat agg crow sector_data metric display = Inr st"
      "percentile st = real (values_below (map metric sector_data) (metric crow))
                          / real (length sector_data) * 100"
      "z_score st = z_value (metric crow) (agg_mean agg (map metric sector_data))
                       (agg_std agg (map metric sector_data))"
    by blast
  from Cons.IH obtain res where
    res: "stats_loop agg crow sector_data ms = Inr res" "map fst res = map fst ms"
      "\<forall>(key, metric, display)\<in>set ms. \<exists>st. (key, st) \<in> set res \<and>
        percentile st = real (values_below (map metric sector_data) (metric crow))
                          / real (length sector_data) * 100 \<and>
        z_score st = z_value (metric crow) (agg_mean agg (map metric sector_data))
                       (agg_std agg (map metric sector_data))"
    by blast
  have "stats_loop agg crow sector_data (m # ms) = Inr ((key, st) # res)"
    by (simp add: m st(1) res(1) bind_err_def)
  moreover have "map fst ((key, st) # res) = map fst (m # ms)"
    by (simp add: m res(2))
  moreover have "\<forall>(key', metric, display)\<in>set (m # ms). \<exists>st'. (key', st') \<in> set ((key, st) # res) \<and>
        percentile st' = real (values_below (map metric sector_data) (metric crow))
                          / real (length sector_data) * 100 \<and>
        z_score st' = z_value (metric crow) (agg_mean agg (map metric sector_data))
                       (agg_std agg (map metric sector_data))"
    using st(2,3) res(3) by (fastforce simp: m)
  ultimately show ?case
    by blast
qed


lemma peer_statistics_empty:
  assumes "filter (\<lambda>r. company r = c) (latest_rows data) = [] \<or>
           filter (\<lambda>r. sector r = s) (latest_rows data) = []"
  shows "calculate_peer_statistics agg data c s = Inr []"
  using assms by (auto simp: calculate_peer_statistics_def Let_def latest_rows_year_max)

lemma peer_statistics_returns:
  assumes "filter (\<lambda>r. company r = c) (latest_rows data) \<noteq> []"
    and "filter (\<lambda>r. sector r = s) (latest_rows data) \<noteq> []"
  shows "\<exists>res. calculate_peer_statistics agg data c s = Inr res \<and>
     map fst res = map fst peer_metrics \<and>
     (\<forall>(key, metric, display)\<in>set peer_metrics. \<exists>st. map_of res key = Some st \<and>
        percentile st =
          real (values_below (map metric (filter (\<lambda>r. sector r = s) (latest_rows data)))
                  (metric (hd (filter (\<lambda>r. company r = c) (latest_rows data)))))
            / real (length (filter (\<lambda>r. sector r = s) (latest_rows data))) * 100 \<and>
        z_score st =
          z_value (metric (hd (filter (\<lambda>r. company r = c) (latest_rows data))))
            (agg_mean agg (map metric (filter (\<lambda>r. sector r = s) (latest_rows data))))
            (agg_std agg (map metric (filter (\<lambda>r. sector r = s) (latest_rows data)))))"
proof -
  let ?crows = "filter (\<lambda>r. company r = c) (latest_rows data)"
  let ?srows = "filter (\<lambda>r. sector r = s) (latest_rows data)"
  from assms(1) obtain crow rest where crows: "?crows = crow # rest"
    by (cases ?crows) auto
  have call: "calculate_peer_statistics agg data c s = stats_loop agg crow ?srows peer_metrics"
    using assms(2) crows
    by (simp add: calculate_peer_statistics_def Let_def latest_rows_year_max iloc0_def
        bind_err_def)
  from stats_loop_returns[OF assms(2), of agg crow peer_metrics] obtain res where
    res: "stats_loop agg crow ?srows peer_metrics = Inr res" "map fst res = map fst peer_metrics"
      "\<forall>(key, metric, display)\<in>set peer_metrics. \<exists>st. (key, st) \<in> set res \<and>
        percentile st = real (values_below (map metric ?srows) (metric crow))
                          / real (length ?srows) * 100 \<and>
        z_score st = z_value (metric crow) (agg_mean agg (map metric ?srows)) (agg_std agg (map metric ?srows))"
    by blast
  have "distinct (map fst res)"
    unfolding res(2) by (simp add: peer_metrics_def)
  then have mo: "\<And>k st. (k, st) \<in> set res \<Longrightarrow> map_of res k = Some st"
    by simp
  have hd: "hd ?crows = crow"
    by (simp add: crows)
  have "\<forall>(key, metric, display)\<in>set peer_metrics. \<exists>st. map_of res key = Some st \<and>
        percentile st = real (values_below (map metric ?srows) (metric (hd ?crows)))
                          / real (length ?srows) * 100 \<and>
        z_score st = z_value (metric (hd ?crows)) (agg_mean agg (map metric ?srows))
                       (agg_std agg (map metric ?srows))"
    unfolding hd using res(3) mo by fast
  with call res(1,2) show ?thesis
    by auto
qed

lemma column_name_not_percentile:
  assumes "map_of numeric_columns k = Some col"
  shows "k \<noteq> m @ ''_percentile''"
proof
  assume "k = m @ ''_percentile''"
  then have "take 11 (rev k) = ''elitnecrep_''"
    by simp
  moreover from map_of_SomeD[OF assms] have "k \<in> fst ` set numeric_columns"
    by force
  ultimately show False
    by (auto simp: numeric_columns_def)
qed

lemma metrics_loop_returns:
  "\<exists>cm'. metrics_loop L row ms cm = Inr cm' \<and>
     (\<forall>m col. map_of numeric_columns m = Some col \<longrightarrow>
        cm' (m @ ''_percentile'') =
          (if m \<in> set ms \<and> dropna (map col L) \<noteq> [] then Some (pct_of L row col)
           else cm (m @ ''_percentile'')))"
proof (induction ms arbitrary: cm)
  case Nil
  show ?case by simp
next
  case (Cons metric rest)
  show ?case
  proof (cases "map_of numeric_columns metric")
    case None
    from Cons.IH[of cm] obtain cm' where
      cm': "metrics_loop L row rest cm = Inr cm'"
        "\<forall>m col. map_of numeric_columns m = Some col \<longrightarrow>
           cm' (m @ ''_percentile'') =
             (if m \<in> set rest \<and> dropna (map col L) \<noteq> [] then Some (pct_of L row col)
              else cm (m @ ''_percentile''))"
      by blast
    have "metrics_loop L row (metric # rest) cm = Inr cm'"
      by (simp add: None cm'(1))
    moreover have "\<forall>m col. map_of numeric_columns m = Some col \<longrightarrow>
           cm' (m @ ''_percentile'') =
             (if m \<in> set (metric # rest) \<and> dropna (map col L) \<noteq> [] then Some (pct_of L row col)
              else cm (m @ ''_percentile''))"
      using cm'(2) None by auto
    ultimately show ?thesis
      by blast
  next
    case (Some c)
    let ?cm1 = "cm(metric \<mapsto> c row)"
    let ?cm2 = "?cm1(metric @ ''_percentile'' \<mapsto> pct_of L row c)"
    let ?next = "if dropna (map c L) \<noteq> [] then ?cm2 else ?cm1"
    have step: "metrics_loop L row (metric # rest) cm = metrics_loop L row rest ?next"
      by (simp add: Some Let_def checked_div_def bind_err_def pct_of_def percentile_rank_def
          count_lt_values_below)
    from Cons.IH[of ?next] obtain cm' where
      cm': "metrics_loop L row rest ?next = Inr cm'"
        "\<forall>m col. map_of numeric_columns m = Some col \<longrightarrow>
           cm' (m @ ''_percentile'') =
             (if m \<in> set rest \<and> dropna (map col L) \<noteq> [] then Some (pct_of L row col)
              else ?next (m @ ''_percentile''))"
      by blast
    have "\<forall>m col. map_of numeric_columns m = Some col \<longrightarrow>
           cm' (m @ ''_percentile'') =
             (if m \<in> set (metric # rest) \<and> dropna (map col L) \<noteq> [] then Some (pct_of L row col)
              else cm (m @ ''_percentile''))"
    proof (intro allI impI)
      fix m col assume mc: "map_of numeric_columns m = Some col"
      have ne: "metric \<noteq> m @ ''_percentile''"
        by (rule column_name_not_percentile[OF Some])
      have nx: "?next (m @ ''_percentile'') =
          (if m = metric \<and> dropna (map col L) \<noteq> [] then Some (pct_of L row col)
           else cm (m @ ''_percentile''))"
        using ne mc Some by (auto simp: pct_of_def)
      show "cm' (m @ ''_percentile'') =
             (if m \<in> set (metric # rest) \<and> dropna (map col L) \<noteq> [] then Some (pct_of L row col)
              else cm (m @ ''_percentile''))"
        using cm'(2)[rule_format, OF mc] nx by auto
    qed
    with step cm'(1) show ?thesis
      by auto
  qed
qed

lemma matrix_loop_returns:
  "\<exists>M. matrix_loop L ms rows = Inr M \<and> map fst M = map company rows \<and>
     (\<forall>i<length rows. \<forall>m col. map_of numeric_columns m = Some col \<longrightarrow> m \<in> set ms \<longrightarrow>
        dropna (map col L) \<noteq> [] \<longrightarrow>
        snd (M ! i) (m @ ''_percentile'') = Some (pct_of L (rows ! i) col))"
proof (induction rows)
  case Nil
  show ?case by simp
next
  case (Cons row rows)
  from metrics_loop_returns[of L row ms Map.empty] obtain cm where
    cm: "metrics_loop L row ms Map.empty = Inr cm"
      "\<forall>m col. map_of numeric_columns m = Some col \<longrightarrow>
        cm (m @ ''_percentile'') =
          (if m \<in> set ms \<and> dropna (map col L) \<noteq> [] then Some (pct_of L row col)
           else Map.empty (m @ ''_percentile''))"
    by blast
  from Cons.IH obtain M where
    M: "matrix_loop L ms rows = Inr M" "map fst M = map company rows"
      "\<forall>i<length rows. \<forall>m col. map_of numeric_columns m = Some col \<longrightarrow> m \<in> set ms \<longrightarrow>
        dropna (map col L) \<noteq> [] \<longrightarrow>
        snd (M ! i) (m @ ''_percentile'') = Some (pct_of L (rows ! i) col)"
    by blast
  have "matrix_loop L ms (row # rows) = Inr ((company row, cm) # M)"
    by (simp add: cm(1) M(1) bind_err_def)
  moreover have "map fst ((company row, cm) # M) = map company (row # rows)"
    by (simp add: M(2))
  moreover have "\<forall>i<length (row # rows). \<forall>m col. map_of numeric_columns m = Some col \<longrightarrow>
        m \<in> set ms \<longrightarrow> dropna (map col L) \<noteq> [] \<longrightarrow>
        snd (((company row, cm) # M) ! i) (m @ ''_percentile'') = Some (pct_of L ((row # rows) ! i) col)"
  proof (intro allI impI)
    fix i m col
    assume i: "i < length (row # rows)" and mc: "map_of numeric_columns m = Some col"
      and ms: "m \<in> set ms" and nn: "dropna (map col L) \<noteq> []"
    show "snd (((company row, cm) # M) ! i) (m @ ''_percentile'') = Some (pct_of L ((row # rows) ! i) col)"
    proof (cases i)
      case 0
      then show ?thesis
        using cm(2)[rule_format, OF mc] ms nn by simp
    next
      case (Suc j)
      then show ?thesis
        using M(3)[rule_format, of j m col] i mc ms nn by simp
    qed
  qed
  ultimately show ?case
    by blast
qed

lemma create_benchmark_matrix_returns:
  "\<exists>M. create_benchmark_matrix data companies metrics_arg = Inr M \<and>
     map fst M = map company (filter (\<lambda>r. company r \<in> set companies) (latest_rows data)) \<and>
     (\<forall>i<length M. \<forall>m col. map_of numeric_columns m = Some col \<longrightarrow>
        m \<in> set (case metrics_arg of None \<Rightarrow> default_metrics | Some ms \<Rightarrow> ms) \<longrightarrow>
        dropna (map col (latest_rows data)) \<noteq> [] \<longrightarrow>
        snd (M ! i) (m @ ''_percentile'') =
          Some (pct_of (latest_rows data)
                  (filter (\<lambda>r. company r \<in> set companies) (latest_rows data) ! i) col))"
proof -
  let ?ms = "case metrics_arg of None \<Rightarrow> default_metrics | Some ms \<Rightarrow> ms"
  let ?rows = "filter (\<lambda>r. company r \<in> set companies) (latest_rows data)"
  from matrix_loop_returns[of "latest_rows data" ?ms ?rows] obtain M where
    M: "matrix_loop (latest_rows data) ?ms ?rows = Inr M" "map fst M = map company ?rows"
      "\<forall>i<length ?rows. \<forall>m col. map_of numeric_columns m = Some col \<longrightarrow> m \<in> set ?ms \<longrightarrow>
        dropna (map col (latest_rows data)) \<noteq> [] \<longrightarrow>
        snd (M ! i) (m @ ''_percentile'') = Some (pct_of (latest_rows data) (?rows ! i) col)"
    by blast
  have len: "length M = length ?rows"
    using arg_cong[OF M(2), of length] by simp
  have "create_benchmark_matrix data companies metrics_arg = Inr M"
  proof (cases "?rows = []")
    case True
    with M(1) have "M = []" by simp
    with True show ?thesis
      by (simp add: create_benchmark_matrix_def Let_def latest_rows_year_max)
  next
    case False
    with M(1) show ?thesis
      by (simp add: create_benchmark_matrix_def Let_def latest_rows_year_max
          latest_rows_year_max_all)
  qed
  with M(2,3) len show ?thesis
    by auto
qed

lemmas sample_rows = acme_2022_def acme_2023_def bolt_2023_def core_2023_def

lemma sample_latest_rows: "latest_rows sample_data = [acme_2023, bolt_2023, core_2023]"
  by (simp add: latest_rows_def sample_data_def sample_rows)

text \<open>
  Claim C3: the percentile rank that \<open>calculate_peer_statistics\<close> computes for each
  metric is the number of latest-year sector values strictly less than the company's
  value, divided by the number of latest-year sector rows, times 100 (the result is
  the empty dictionary when the company or the sector has no row in the latest year);
  the percentile columns of \<open>create_benchmark_matrix\<close> use the same formula over the
  non-null latest-year values of all companies.
\<close>

theorem percentile_rank_formula:
  "(\<exists>res. calculate_peer_statistics agg data company_name sector_key = Inr res \<and>
      (if filter (\<lambda>r. company r = company_name) (latest_rows data) = [] \<or>
          filter (\<lambda>r. sector r = sector_key) (latest_rows data) = []
       then res = []
       else map fst res = map fst peer_metrics \<and>
            (\<forall>(key, metric, display)\<in>set peer_metrics. \<exists>st. map_of res key = Some st \<and>
               percentile st =
                 percentile_rank
                   (map metric (filter (\<lambda>r. sector r = sector_key) (latest_rows data)))
                   (metric (hd (filter (\<lambda>r. company r = company_name) (latest_rows data))))
                   (length (filter (\<lambda>r. sector r = sector_key) (latest_rows data))))))
   \<and> (\<exists>M. create_benchmark_matrix data companies metrics_arg = Inr M \<and>
        map fst M = map company (filter (\<lambda>r. company r \<in> set companies) (latest_rows data)) \<and>
        (\<forall>i<length M.
           \<forall>m\<in>set (case metrics_arg of None \<Rightarrow> default_metrics | Some ms \<Rightarrow> ms).
             \<forall>col. map_of numeric_columns m = Some col \<longrightarrow>
               dropna (map col (latest_rows data)) \<noteq> [] \<longrightarrow>
               snd (M ! i) (m @ ''_percentile'') =
                 Some (Some (percentile_rank
                   (map Some (dropna (map col (latest_rows data))))
                   (col (filter (\<lambda>r. company r \<in> set companies) (latest_rows data) ! i))
                   (length (dropna (map col (latest_rows data))))))))"
proof (rule conjI)
  let ?crows = "filter (\<lambda>r. company r = company_name) (latest_rows data)"
  let ?srows = "filter (\<lambda>r. sector r = sector_key) (latest_rows data)"
  show "\<exists>res. calculate_peer_statistics agg data company_name sector_key = Inr res \<and>
      (if ?crows = [] \<or> ?srows = [] then res = []
       else map fst res = map fst peer_metrics \<and>
            (\<forall>(key, metric, display)\<in>set peer_metrics. \<exists>st. map_of res key = Some st \<and>
               percentile st = percentile_rank (map metric ?srows) (metric (hd ?crows))
                                 (length ?srows)))"
  proof (cases "?crows = [] \<or> ?srows = []")
    case True
    then show ?thesis
      using peer_statistics_empty[OF True] by simp
  next
    case False
    then have c: "?crows \<noteq> []" and s: "?srows \<noteq> []"
      by simp_all
    from peer_statistics_returns[OF c s] obtain res where
      res: "calculate_peer_statistics agg data company_name sector_key = Inr res"
        "map fst res = map fst peer_metrics"
        "\<forall>(key, metric, display)\<in>set peer_metrics. \<exists>st. map_of res key = Some st \<and>
           percentile st = real (values_below (map metric ?srows) (metric (hd ?crows)))
                             / real (length ?srows) * 100 \<and>
           z_score st = z_value (metric (hd ?crows)) (agg_mean agg (map metric ?srows))
                          (agg_std agg (map metric ?srows))"
      by blast
    have "\<forall>(key, metric, display)\<in>set peer_metrics. \<exists>st. map_of res key = Some st \<and>
               percentile st = percentile_rank (map metric ?srows) (metric (hd ?crows))
                                 (length ?srows)"
      using res(3) unfolding percentile_rank_def by fast
    with res(1,2) False show ?thesis
      by simp
  qed
next
  from create_benchmark_matrix_returns[of data companies metrics_arg]
  show "\<exists>M. create_benchmark_matrix data companies metrics_arg = Inr M \<and>
        map fst M = map company (filter (\<lambda>r. company r \<in> set companies) (latest_rows data)) \<and>
        (\<forall>i<length M.
           \<forall>m\<in>set (case metrics_arg of None \<Rightarrow> default_metrics | Some ms \<Rightarrow> ms).
             \<forall>col. map_of numeric_columns m = Some col \<longrightarrow>
               dropna (map col (latest_rows data)) \<noteq> [] \<longrightarrow>
               snd (M ! i) (m @ ''_percentile'') =
                 Some (Some (percentile_rank
                   (map Some (dropna (map col (latest_rows data))))
                   (col (filter (\<lambda>r. company r \<in> set companies) (latest_rows data) ! i))
                   (length (dropna (map col (latest_rows data)))))))"
    unfolding pct_of_def by fast
qed


theorem percentile_rank_formula_witness:
  "(\<exists>res st. calculate_peer_statistics exact_aggregates sample_data ''Acme'' ''Energy'' = Inr res \<and>
      map_of res ''total_esg_score'' = Some st \<and> percentile st = 100 / 3)
   \<and> (\<exists>M. create_benchmark_matrix sample_data [''Acme'', ''Core''] (Some [''diversity_score''])
            = Inr M \<and>
          map fst M = [''Acme'', ''Core''] \<and>
          snd (M ! 0) ''diversity_score_percentile'' = Some (Some 0) \<and>
          snd (M ! 1) ''diversity_score_percentile'' = Some (Some 50))"
proof (rule conjI)
  note main = percentile_rank_formula[of exact_aggregates sample_data "''Acme''" "''Energy''"
      "[''Acme'', ''Core'']" "Some [''diversity_score'']"]
  have crows: "filter (\<lambda>r. company r = ''Acme'') (latest_rows sample_data) = [acme_2023]"
    and srows: "filter (\<lambda>r. sector r = ''Energy'') (latest_rows sample_data)
                  = [acme_2023, bolt_2023, core_2023]"
    by (simp_all add: sample_latest_rows sample_rows)
  have cond: "\<not> ([acme_2023] = [] \<or> [acme_2023, bolt_2023, core_2023] = [])"
    by simp
  have "\<exists>res. calculate_peer_statistics exact_aggregates sample_data ''Acme'' ''Energy'' = Inr res \<and>
      (map fst res = map fst peer_metrics \<and>
       (\<forall>(key, metric, display)\<in>set peer_metrics. \<exists>st. map_of res key = Some st \<and>
               percentile st = percentile_rank (map metric [acme_2023, bolt_2023, core_2023])
                                 (metric (hd [acme_2023])) (length [acme_2023, bolt_2023, core_2023])))"
    using main[THEN conjunct1] unfolding crows srows if_not_P[OF cond] .
  then obtain res where
    r: "calculate_peer_statistics exact_aggregates sample_data ''Acme'' ''Energy'' = Inr res \<and>
      (map fst res = map fst peer_metrics \<and>
       (\<forall>(key, metric, display)\<in>set peer_metrics. \<exists>st. map_of res key = Some st \<and>
               percentile st = percentile_rank (map metric [acme_2023, bolt_2023, core_2023])
                                 (metric (hd [acme_2023])) (length [acme_2023, bolt_2023, core_2023])))"
    ..
  note res = r[THEN conjunct1] and all = r[THEN conjunct2, THEN conjunct2]
  have mem: "(''total_esg_score'', total_esg_score, ''Total ESG'') \<in> set peer_metrics"
    by (simp add: peer_metrics_def)
  have "\<exists>st. map_of res ''total_esg_score'' = Some st \<and>
          percentile st = percentile_rank (map total_esg_score [acme_2023, bolt_2023, core_2023])
                       (total_esg_score (hd [acme_2023])) (length [acme_2023, bolt_2023, core_2023])"
    using bspec[OF all mem] unfolding prod.case .
  then obtain st where
    s: "map_of res ''total_esg_score'' = Some st \<and>
          percentile st = percentile_rank (map total_esg_score [acme_2023, bolt_2023, core_2023])
                       (total_esg_score (hd [acme_2023])) (length [acme_2023, bolt_2023, core_2023])"
    ..
  have v: "percentile_rank (map total_esg_score [acme_2023, bolt_2023, core_2023])
             (total_esg_score (hd [acme_2023])) (length [acme_2023, bolt_2023, core_2023]) = 100 / 3"
    by (simp add: percentile_rank_def values_below_def exceeds_def sample_rows)
  have "percentile st = 100 / 3"
    using s[THEN conjunct2] unfolding v .
  with res s[THEN conjunct1]
  show "\<exists>res st. calculate_peer_statistics exact_aggregates sample_data ''Acme'' ''Energy'' = Inr res \<and>
      map_of res ''total_esg_score'' = Some st \<and> percentile st = 100 / 3"
    by (intro exI[of _ res] exI[of _ st] conjI)
next
  note main = percentile_rank_formula[of exact_aggregates sample_data "''Acme''" "''Energy''"
      "[''Acme'', ''Core'']" "Some [''diversity_score'']"]
  have mrows: "filter (\<lambda>r. company r \<in> set [''Acme'', ''Core'']) (latest_rows sample_data)
                  = [acme_2023, core_2023]"
    by (simp add: sample_latest_rows sample_rows)
  have nn: "dropna (map diversity_score (latest_rows sample_data)) = [42, 60]"
    by (simp add: sample_latest_rows sample_rows)
  have "\<exists>M. create_benchmark_matrix sample_data [''Acme'', ''Core''] (Some [''diversity_score'']) = Inr M \<and>
      (map fst M = map company [acme_2023, core_2023] \<and>
      (\<forall>i<length M. \<forall>m\<in>set [''diversity_score''].
             \<forall>col. map_of numeric_columns m = Some col \<longrightarrow>
               dropna (map col (latest_rows sample_data)) \<noteq> [] \<longrightarrow>
               snd (M ! i) (m @ ''_percentile'') =
                 Some (Some (percentile_rank
                   (map Some (dropna (map col (latest_rows sample_data))))
                   (col ([acme_2023, core_2023] ! i))
                   (length (dropna (map col (latest_rows sample_data))))))))"
    using main[THEN conjunct2] unfolding mrows option.case .
  then obtain M where
    r: "create_benchmark_matrix sample_data [''Acme'', ''Core''] (Some [''diversity_score'']) = Inr M \<and>
      (map fst M = map company [acme_2023, core_2023] \<and>
      (\<forall>i<length M. \<forall>m\<in>set [''diversity_score''].
             \<forall>col. map_of numeric_columns m = Some col \<longrightarrow>
               dropna (map col (latest_rows sample_data)) \<noteq> [] \<longrightarrow>
               snd (M ! i) (m @ ''_percentile'') =
                 Some (Some (percentile_rank
                   (map Some (dropna (map col (latest_rows sample_data))))
                   (col ([acme_2023, core_2023] ! i))
                   (length (dropna (map col (latest_rows sample_data))))))))"
    ..
  note M = r[THEN conjunct1] and names = r[THEN conjunct2, THEN conjunct1]
    and entries = r[THEN conjunct2, THEN conjunct2]
  have len: "length M = 2"
    using arg_cong[OF names, of length] by simp
  have col: "map_of numeric_columns ''diversity_score'' = Some diversity_score"
    by (simp add: numeric_columns_def)
  have m: "''diversity_score'' \<in> set [''diversity_score'']"
    by simp
  have n: "dropna (map diversity_score (latest_rows sample_data)) \<noteq> []"
    unfolding nn by simp
  have i0: "0 < length M" and i1: "1 < length M"
    using len by simp_all
  have v0: "percentile_rank (map Some [42, 60]) (diversity_score ([acme_2023, core_2023] ! 0))
              (length [42, 60 :: real]) = 0"
    and v1: "percentile_rank (map Some [42, 60]) (diversity_score ([acme_2023, core_2023] ! 1))
              (length [42, 60 :: real]) = 50"
    by (simp_all add: percentile_rank_def values_below_def exceeds_def sample_rows)
  have a: "''diversity_score'' @ ''_percentile'' = ''diversity_score_percentile''"
    by simp
  have e0: "snd (M ! 0) ''diversity_score_percentile'' = Some (Some 0)"
    using entries[rule_format, OF i0 m col n] unfolding nn v0 a .
  have e1: "snd (M ! 1) ''diversity_score_percentile'' = Some (Some 50)"
    using entries[rule_format, OF i1 m col n] unfolding nn v1 a .
  have nm: "map fst M = [''Acme'', ''Core'']"
    using names by (simp add: sample_rows)
  from M nm e0 e1
  show "\<exists>M. create_benchmark_matrix sample_data [''Acme'', ''Core''] (Some [''diversity_score''])
            = Inr M \<and>
          map fst M = [''Acme'', ''Core''] \<and>
          snd (M ! 0) ''diversity_score_percentile'' = Some (Some 0) \<and>
          snd (M ! 1) ''diversity_score_percentile'' = Some (Some 50)"
    by (intro exI[of _ M] conjI)
qed




end
